theory Spec2Isabelle
  imports Complex_Main "HOL-Library.AList"
begin

section \<open>JavaScript values, strings and patterns\<close>

text \<open>
  A JavaScript string is modelled as a \<open>string\<close>, one \<open>char\<close> per code unit. The three
  patterns of the sources have no flags, so \<open>^\<close> and \<open>$\<close> are the two ends of the input
  and \<open>\d\<close> is one of the ten ASCII digits.
\<close>

definition digit :: "char \<Rightarrow> bool" where
  "digit c = (c \<in> set ''0123456789'')"

text \<open>\<^verbatim>\<open>/^\d{n}$/.test(s)\<close>\<close>

definition digits :: "nat \<Rightarrow> string \<Rightarrow> bool" where
  "digits n s = (length s = n \<and> list_all digit s)"

text \<open>\<^verbatim>\<open>/^\d{9}$/.test(s)\<close>, \<^verbatim>\<open>/^IMO\d{7}$/.test(s)\<close> and \<^verbatim>\<open>/^\d{7}$/.test(s)\<close>\<close>

definition test_mmsi :: "string \<Rightarrow> bool" where
  "test_mmsi s = digits 9 s"

definition test_imo_prefixed :: "string \<Rightarrow> bool" where
  "test_imo_prefixed s = (take 3 s = ''IMO'' \<and> digits 7 (drop 3 s))"

definition test_imo_bare :: "string \<Rightarrow> bool" where
  "test_imo_bare s = digits 7 s"

text \<open>\<^verbatim>\<open>s.startsWith(p)\<close>; \<^verbatim>\<open>s.substring(3)\<close> is \<open>drop 3 s\<close>, empty when \<open>s\<close> is shorter.\<close>

definition startsWith :: "string \<Rightarrow> string \<Rightarrow> bool" where
  "startsWith s p = (take (length p) s = p)"

definition substring :: "string \<Rightarrow> nat \<Rightarrow> string" where
  "substring s n = drop n s"

text \<open>
  Numbers are rationals: the values a JSON document can carry. A number is truthy unless
  it is zero, a string unless it is empty, an object always; an absent field
  (\<open>undefined\<close>) is falsy.
\<close>

type_synonym number = rat

datatype jsval = JStr string | JNum number

definition truthy_str :: "string option \<Rightarrow> bool" where
  "truthy_str x = (case x of None \<Rightarrow> False | Some s \<Rightarrow> s \<noteq> [])"

definition truthy_num :: "number option \<Rightarrow> bool" where
  "truthy_num x = (case x of None \<Rightarrow> False | Some n \<Rightarrow> n \<noteq> 0)"

text \<open>\<^verbatim>\<open>x || d\<close> for an optional string \<open>x\<close> and a string \<open>d\<close>.\<close>

definition or_str :: "string option \<Rightarrow> string \<Rightarrow> string" where
  "or_str x d = (if truthy_str x then the x else d)"

text \<open>The decimal numeral of a natural number, as a template literal renders it.\<close>

fun decimal :: "nat \<Rightarrow> string" where
  "decimal n =
     (if n < 10 then [''0123456789'' ! n]
      else decimal (n div 10) @ [''0123456789'' ! (n mod 10)])"

text \<open>
  What the language runtime provides and the sources call: the rendering of a number
  inside a template literal, \<^verbatim>\<open>new Date(s).toISOString()\<close> (\<open>None\<close>: it throws
  RangeError, the date being invalid) and \<^verbatim>\<open>decodeURIComponent\<close> (\<open>None\<close>: it
  throws URIError). They are parameters of the model.
\<close>

record runtime =
  String_of_number :: "number \<Rightarrow> string"
  toISOString :: "string \<Rightarrow> string option"
  decodeURIComponent :: "string \<Rightarrow> string option"

section \<open>Errors\<close>

datatype ErrorCode = InvalidParams | InvalidRequest | InternalError

text \<open>
  A thrown value: an \<open>McpError\<close> with its code and the message given to its constructor,
  an axios error with its message and its response (status and body) when one was
  received, or any other \<open>Error\<close> with its message.
\<close>

datatype js_error =
    McpError ErrorCode string
  | AxiosError string "(nat \<times> string) option"
  | Error string

fun message :: "js_error \<Rightarrow> string" where
  "message (McpError c m) = m"
| "message (AxiosError m r) = m"
| "message (Error m) = m"

definition MISSING_API_KEY :: string where
  "MISSING_API_KEY = ''MarineTraffic API key is required''"

definition RATE_LIMIT_EXCEEDED :: string where
  "RATE_LIMIT_EXCEEDED = ''Rate limit exceeded for MarineTraffic API''"

definition INVALID_API_KEY :: string where
  "INVALID_API_KEY = ''Invalid MarineTraffic API key''"

definition API_ERROR :: string where
  "API_ERROR = ''MarineTraffic API error''"

definition NETWORK_ERROR :: string where
  "NETWORK_ERROR = ''Network error while connecting to MarineTraffic API''"

text \<open>
  The \<open>catch\<close> block every tool and resource ends with: an \<open>McpError\<close> is thrown again as
  it is, anything else becomes an \<open>InternalError\<close> whose message is the prefix followed by
  the message of what was caught.
\<close>

definition rethrow :: "string \<Rightarrow> js_error \<Rightarrow> js_error" where
  "rethrow prefix e =
     (case e of McpError c m \<Rightarrow> e | _ \<Rightarrow> McpError InternalError (prefix @ message e))"

section \<open>The API client\<close>

definition VESSEL_POSITION :: string where
  "VESSEL_POSITION = ''/exportvessel/v:5/position''"

definition VESSEL_DETAILS :: string where
  "VESSEL_DETAILS = ''/exportvessel/v:4/vesseldetails''"

definition VESSEL_SEARCH :: string where
  "VESSEL_SEARCH = ''/exportvessel/v:5/ps01''"

definition VESSELS_IN_AREA :: string where
  "VESSELS_IN_AREA = ''/exportvessel/v:5/ps02''"

text \<open>
  Query parameters are an object: an association list, in insertion order. Writing a
  key (\<open>AList.update\<close>) replaces the value of a key that is there and appends a new one.
\<close>

type_synonym params = "(string \<times> jsval) list"

record MarineTrafficApiClient =
  apiKey :: string
  baseUrl :: string
  retryDelay :: nat
  maxRetries :: nat

text \<open>The constructor: an empty key is falsy and throws.\<close>

definition new_MarineTrafficApiClient :: "string \<Rightarrow> js_error + MarineTrafficApiClient" where
  "new_MarineTrafficApiClient key =
     (if key = [] then Inl (McpError InvalidParams MISSING_API_KEY)
      else Inr \<lparr> apiKey = key, baseUrl = ''https://services.marinetraffic.com/api'',
                 retryDelay = 1000, maxRetries = 3 \<rparr>)"

text \<open>The request interceptor: \<^verbatim>\<open>{ ...config.params, apiKey: this.apiKey }\<close>.\<close>

definition interceptor :: "MarineTrafficApiClient \<Rightarrow> params \<Rightarrow> params" where
  "interceptor c ps = AList.update ''apiKey'' (JStr (apiKey c)) ps"

text \<open>
  What one \<^verbatim>\<open>axiosInstance.get\<close> does: it resolves with the data of the response or
  rejects with an error. The network is a function giving, for the attempt made at each
  retry depth, the outcome of the request sent (its path and the query parameters that
  leave the interceptor). What a logical request does is recorded as a trace of events:
  the requests sent and the delays waited, in order.
\<close>

datatype 'a reply = Resolve 'a | Reject js_error

type_synonym 'a network = "nat \<Rightarrow> string \<Rightarrow> params \<Rightarrow> 'a reply"

datatype event = Get string params | Sleep nat

function makeRequest ::
  "MarineTrafficApiClient \<Rightarrow> 'a network \<Rightarrow> string \<Rightarrow> params \<Rightarrow> nat \<Rightarrow> (js_error + 'a) \<times> event list"
where
  "makeRequest c net endpoint ps retryCount =
     (case net retryCount endpoint (interceptor c ps) of
        Resolve d \<Rightarrow> (Inr d, [Get endpoint (interceptor c ps)])
      | Reject err \<Rightarrow>
          (case err of
             AxiosError m response \<Rightarrow>
               if map_option fst response = Some 429 \<and> retryCount < maxRetries c then
                 (case makeRequest c net endpoint ps (retryCount + 1) of
                    (r, tr) \<Rightarrow>
                      (r, Get endpoint (interceptor c ps)
                          # Sleep (retryDelay c * 2 ^ retryCount) # tr))
               else if map_option fst response = Some 401 then
                 (Inl (McpError InvalidRequest INVALID_API_KEY),
                  [Get endpoint (interceptor c ps)])
               else
                 (case response of
                    Some (status, body) \<Rightarrow>
                      (Inl (McpError InternalError
                              (API_ERROR @ '': '' @ decimal status @ '' - '' @ body)),
                       [Get endpoint (interceptor c ps)])
                  | None \<Rightarrow>
                      (Inl (McpError InternalError NETWORK_ERROR),
                       [Get endpoint (interceptor c ps)]))
           | _ \<Rightarrow> (Inl err, [Get endpoint (interceptor c ps)])))"
  by pat_completeness auto
termination
  by (relation "measure (\<lambda>(c, net, endpoint, ps, retryCount). maxRetries c - retryCount)") auto


section \<open>Entities\<close>

text \<open>
  The interfaces of the client. Field names carry a prefix, the two response entities
  and the search parameters sharing several names.
\<close>

record VesselPosition =
  vp_mmsi :: string
  vp_imo :: "string option"
  vp_ship_name :: "string option"
  vp_latitude :: number
  vp_longitude :: number
  vp_speed :: number
  vp_heading :: "number option"
  vp_course :: "number option"
  vp_status :: "string option"
  vp_timestamp :: string
  vp_ship_type :: "number option"
  vp_destination :: "string option"
  vp_eta :: "string option"

record VesselDetails =
  vd_mmsi :: string
  vd_imo :: "string option"
  vd_name :: string
  vd_ship_type :: number
  vd_type_name :: "string option"
  vd_callsign :: "string option"
  vd_flag :: "string option"
  vd_gross_tonnage :: "number option"
  vd_summer_dwt :: "number option"
  vd_length_overall :: "number option"
  vd_breadth_extreme :: "number option"
  vd_year_built :: "number option"
  vd_home_port :: "string option"

record SearchParams =
  sp_vessel_name :: "string option"
  sp_mmsi :: "string option"
  sp_imo :: "string option"
  sp_ship_type :: "number option"

record AreaParams =
  center_lat :: number
  center_lon :: number
  radius :: number
  min_ship_type :: "number option"
  max_ship_type :: "number option"

text \<open>An object given as query parameters: the fields that are present.\<close>

definition entry :: "string \<Rightarrow> ('a \<Rightarrow> jsval) \<Rightarrow> 'a option \<Rightarrow> params" where
  "entry k f x = (case x of None \<Rightarrow> [] | Some v \<Rightarrow> [(k, f v)])"

definition SearchParams_params :: "SearchParams \<Rightarrow> params" where
  "SearchParams_params a =
     entry ''vessel_name'' JStr (sp_vessel_name a) @ entry ''mmsi'' JStr (sp_mmsi a)
     @ entry ''imo'' JStr (sp_imo a) @ entry ''ship_type'' JNum (sp_ship_type a)"

definition AreaParams_params :: "AreaParams \<Rightarrow> params" where
  "AreaParams_params a =
     [(''center_lat'', JNum (center_lat a)), (''center_lon'', JNum (center_lon a)),
      (''radius'', JNum (radius a))]
     @ entry ''min_ship_type'' JNum (min_ship_type a)
     @ entry ''max_ship_type'' JNum (max_ship_type a)"

section \<open>The four operations of the client\<close>

text \<open>
  The result type an operation declares is a cast of whatever the response carries
  (\<^verbatim>\<open>response.data as T\<close>), so \<open>getVesselPosition\<close> and \<open>getVesselDetails\<close> are generic in
  it. A tool reads the fields of what it gets without testing it: there the data is an
  object of the interface. The vessel resource tests what it gets for truthiness: there
  the data is a body, see below.
\<close>

text \<open>The parameter object \<open>getVesselPosition\<close> builds from its identifier.\<close>

definition getVesselPosition_params :: "string \<Rightarrow> params" where
  "getVesselPosition_params identifier =
     (let isMMSI = test_mmsi identifier
      in if isMMSI then AList.update ''mmsi'' (JStr identifier) []
         else AList.update ''imo'' (JStr identifier) [])"

definition getVesselPosition ::
  "MarineTrafficApiClient \<Rightarrow> 'a network \<Rightarrow> string \<Rightarrow> (js_error + 'a) \<times> event list" where
  "getVesselPosition c net identifier =
     makeRequest c net VESSEL_POSITION (getVesselPosition_params identifier) 0"

text \<open>The parameter object \<open>getVesselDetails\<close> builds from its identifier.\<close>

definition getVesselDetails_params :: "string \<Rightarrow> params" where
  "getVesselDetails_params identifier =
     (let isMMSI = test_mmsi identifier
      in if isMMSI then AList.update ''mmsi'' (JStr identifier) []
         else AList.update ''imo'' (JStr identifier) [])"

definition getVesselDetails ::
  "MarineTrafficApiClient \<Rightarrow> 'a network \<Rightarrow> string \<Rightarrow> (js_error + 'a) \<times> event list" where
  "getVesselDetails c net identifier =
     makeRequest c net VESSEL_DETAILS (getVesselDetails_params identifier) 0"

definition searchVessels ::
  "MarineTrafficApiClient \<Rightarrow> VesselPosition list network \<Rightarrow> SearchParams
     \<Rightarrow> (js_error + VesselPosition list) \<times> event list" where
  "searchVessels c net searchParams =
     makeRequest c net VESSEL_SEARCH (SearchParams_params searchParams) 0"

definition getVesselsInArea ::
  "MarineTrafficApiClient \<Rightarrow> VesselPosition list network \<Rightarrow> AreaParams
     \<Rightarrow> (js_error + VesselPosition list) \<times> event list" where
  "getVesselsInArea c net areaParams =
     makeRequest c net VESSELS_IN_AREA (AreaParams_params areaParams) 0"

text \<open>The requests of a trace, in order.\<close>

fun gets :: "event list \<Rightarrow> (string \<times> params) list" where
  "gets [] = []"
| "gets (Get e ps # tr) = (e, ps) # gets tr"
| "gets (Sleep d # tr) = gets tr"


section \<open>Ship types\<close>

text \<open>
  The simplified table, which the search tool, the area tool and the two resources each
  declare with the same entries, and the full table of the details tool. A table is
  read at a number: \<open>map_of\<close> finds the entry whose key is that number.
\<close>

definition SHIP_TYPE_MAPPING :: "(number \<times> string) list" where
  "SHIP_TYPE_MAPPING =
   [(0, ''Not available''), (1, ''Reserved''), (2, ''Wing In Ground''),
     (4, ''High-Speed Craft''), (6, ''Passenger''), (7, ''Cargo''), (8, ''Tanker''),
     (9, ''Other''), (30, ''Fishing''), (31, ''Towing''), (32, ''Towing''),
     (33, ''Dredging''), (34, ''Diving''), (35, ''Military''), (36, ''Sailing''),
     (37, ''Pleasure Craft''), (50, ''Pilot Vessel''), (51, ''Search and Rescue''),
     (52, ''Tug''), (53, ''Port Tender''), (54, ''Anti-Pollution''),
     (55, ''Law Enforcement'')]"

definition SHIP_TYPE_MAPPING_details :: "(number \<times> string) list" where
  "SHIP_TYPE_MAPPING_details =
   [(0, ''Not available''), (1, ''Reserved''), (2, ''Wing In Ground''),
     (3, ''Special Category''), (4, ''High-Speed Craft''), (5, ''Special Category''),
     (6, ''Passenger''), (7, ''Cargo''), (8, ''Tanker''), (9, ''Other''),
     (10, ''Reserved''), (11, ''Reserved''), (12, ''Reserved''), (13, ''Reserved''),
     (14, ''Reserved''), (15, ''Reserved''), (16, ''Reserved''), (17, ''Reserved''),
     (18, ''Reserved''), (19, ''Reserved''), (20, ''Wing In Ground (WIG)''),
     (21, ''Wing In Ground (WIG)''), (22, ''Wing In Ground (WIG)''),
     (23, ''Wing In Ground (WIG)''), (24, ''Wing In Ground (WIG)''),
     (25, ''Wing In Ground (WIG)''), (26, ''Wing In Ground (WIG)''),
     (27, ''Wing In Ground (WIG)''), (28, ''Wing In Ground (WIG)''),
     (29, ''Wing In Ground (WIG)''), (30, ''Fishing''), (31, ''Towing''), (32, ''Towing''),
     (33, ''Dredging''), (34, ''Diving''), (35, ''Military''), (36, ''Sailing''),
     (37, ''Pleasure Craft''), (38, ''Reserved''), (39, ''Reserved''),
     (40, ''High-Speed Craft''), (41, ''High-Speed Craft''), (42, ''High-Speed Craft''),
     (43, ''High-Speed Craft''), (44, ''High-Speed Craft''), (45, ''High-Speed Craft''),
     (46, ''High-Speed Craft''), (47, ''High-Speed Craft''), (48, ''High-Speed Craft''),
     (49, ''High-Speed Craft''), (50, ''Pilot Vessel''), (51, ''Search and Rescue''),
     (52, ''Tug''), (53, ''Port Tender''), (54, ''Anti-Pollution''),
     (55, ''Law Enforcement''), (56, ''Local Vessel''), (57, ''Local Vessel''),
     (58, ''Medical Transport''), (59, ''Special Craft''), (60, ''Passenger''),
     (61, ''Passenger''), (62, ''Passenger''), (63, ''Passenger''), (64, ''Passenger''),
     (65, ''Passenger''), (66, ''Passenger''), (67, ''Passenger''), (68, ''Passenger''),
     (69, ''Passenger''), (70, ''Cargo''), (71, ''Cargo''), (72, ''Cargo''),
     (73, ''Cargo''), (74, ''Cargo''), (75, ''Cargo''), (76, ''Cargo''), (77, ''Cargo''),
     (78, ''Cargo''), (79, ''Cargo''), (80, ''Tanker''), (81, ''Tanker''),
     (82, ''Tanker''), (83, ''Tanker''), (84, ''Tanker''), (85, ''Tanker''),
     (86, ''Tanker''), (87, ''Tanker''), (88, ''Tanker''), (89, ''Tanker''),
     (90, ''Other''), (91, ''Other''), (92, ''Other''), (93, ''Other''), (94, ''Other''),
     (95, ''Other''), (96, ''Other''), (97, ''Other''), (98, ''Other''), (99, ''Other'')]"

section \<open>Formatted payloads\<close>

text \<open>
  Each tool returns the JSON text of an object it builds; the model returns the object.
  In a template literal a number is rendered by the runtime; the degree sign is the code
  unit \<open>0xB0\<close>.
\<close>

record LatLon =
  latitude :: number
  longitude :: number

record PositionResponse =
  pr_mmsi :: string
  pr_imo :: string
  pr_name :: string
  pr_position :: LatLon
  pr_speed :: string
  pr_course :: string
  pr_heading :: string
  pr_status :: string
  pr_last_update :: string
  pr_destination :: string
  pr_eta :: string

record VesselType =
  vt_code :: number
  vt_name :: string

record Dimensions =
  dim_length_overall :: string
  dim_breadth_extreme :: string

record Tonnage =
  ton_gross :: string
  ton_summer_dwt :: string

record DetailsResponse =
  dr_mmsi :: string
  dr_imo :: string
  dr_name :: string
  dr_vessel_type :: VesselType
  dr_callsign :: string
  dr_flag :: string
  dr_dimensions :: Dimensions
  dr_tonnage :: Tonnage
  dr_year_built :: jsval
  dr_home_port :: string

record FormattedVessel =
  fv_mmsi :: string
  fv_imo :: string
  fv_name :: string
  fv_position :: LatLon
  fv_speed :: string
  fv_course :: string
  fv_status :: string
  fv_type :: string
  fv_destination :: string
  fv_eta :: string
  fv_last_update :: string

record SearchResponse =
  sr_count :: nat
  sr_vessels :: "FormattedVessel list"

record ResourcePosition =
  rp_latitude :: number
  rp_longitude :: number
  rp_speed :: string
  rp_course :: string
  rp_heading :: string
  rp_status :: string
  rp_last_update :: string

record ResourceDetails =
  rd_callsign :: string
  rd_flag :: string
  rd_dimensions :: Dimensions
  rd_tonnage :: Tonnage
  rd_year_built :: jsval
  rd_home_port :: string

record Voyage =
  voy_destination :: string
  voy_eta :: string

record VesselData =
  v_mmsi :: string
  v_imo :: string
  v_name :: string
  v_vessel_type :: "VesselType option"
  v_position :: "ResourcePosition option"
  v_details :: "ResourceDetails option"
  v_voyage :: "Voyage option"

text \<open>\<^verbatim>\<open>x ? `${x}suffix` : 'N/A'\<close> for an optional number \<open>x\<close>.\<close>

definition with_unit :: "runtime \<Rightarrow> number option \<Rightarrow> string \<Rightarrow> string" where
  "with_unit rt x suffix =
     (if truthy_num x then String_of_number rt (the x) @ suffix else ''N/A'')"

definition degree_sign :: string where
  "degree_sign = [CHR 0xB0]"

text \<open>\<^verbatim>\<open>new Date(s).toISOString()\<close>, which throws when the date is invalid.\<close>

definition last_update :: "runtime \<Rightarrow> string \<Rightarrow> js_error + string" where
  "last_update rt s =
     (case toISOString rt s of None \<Rightarrow> Inl (Error ''Invalid time value'') | Some t \<Rightarrow> Inr t)"

text \<open>
  \<open>formatVesselData\<close>, declared with the same body by the search tool, the area tool and
  the area resource.
\<close>

definition formatVesselData :: "runtime \<Rightarrow> VesselPosition \<Rightarrow> js_error + FormattedVessel" where
  "formatVesselData rt vessel =
     (case last_update rt (vp_timestamp vessel) of
        Inl e \<Rightarrow> Inl e
      | Inr t \<Rightarrow> Inr
          \<lparr> fv_mmsi = vp_mmsi vessel,
            fv_imo = or_str (vp_imo vessel) ''N/A'',
            fv_name = or_str (vp_ship_name vessel) ''Unknown'',
            fv_position =
              \<lparr> latitude = vp_latitude vessel, longitude = vp_longitude vessel \<rparr>,
            fv_speed = String_of_number rt (vp_speed vessel) @ '' knots'',
            fv_course = with_unit rt (vp_course vessel) degree_sign,
            fv_status = or_str (vp_status vessel) ''Unknown'',
            fv_type =
              (if truthy_num (vp_ship_type vessel) then
                 String_of_number rt (the (vp_ship_type vessel)) @ '' (''
                 @ or_str (map_of SHIP_TYPE_MAPPING (the (vp_ship_type vessel))) ''Unknown''
                 @ '')''
               else ''Unknown''),
            fv_destination = or_str (vp_destination vessel) ''Unknown'',
            fv_eta = or_str (vp_eta vessel) ''Unknown'',
            fv_last_update = t \<rparr>)"

text \<open>\<^verbatim>\<open>xs.map(f)\<close> for an \<open>f\<close> that may throw: the first throw ends the map.\<close>

fun map_throwing :: "('a \<Rightarrow> js_error + 'b) \<Rightarrow> 'a list \<Rightarrow> js_error + 'b list" where
  "map_throwing f [] = Inr []"
| "map_throwing f (x # xs) =
     (case f x of
        Inl e \<Rightarrow> Inl e
      | Inr y \<Rightarrow> (case map_throwing f xs of Inl e \<Rightarrow> Inl e | Inr ys \<Rightarrow> Inr (y # ys)))"


text \<open>
  The constant \<open>cleanIdentifier\<close> that the position tool, the details tool and the vessel
  resource each compute from the identifier they have validated.
\<close>

definition cleanIdentifier :: "string \<Rightarrow> string" where
  "cleanIdentifier identifier =
     (if startsWith identifier ''IMO'' then substring identifier 3 else identifier)"

text \<open>Two messages of the sources contain double quotes.\<close>

definition INVALID_IMO_NUMBER :: string where
  \<open>INVALID_IMO_NUMBER =
     ''Invalid IMO number. Must be a 7-digit number, optionally prefixed with "IMO"''\<close>

definition INVALID_VESSEL_IDENTIFIER :: string where
  \<open>INVALID_VESSEL_IDENTIFIER =
     ''Invalid vessel identifier. Must be a 9-digit MMSI number or IMO number (optionally prefixed with "IMO")''\<close>

section \<open>The position tool\<close>

definition getVesselPositionTool ::
  "runtime \<Rightarrow> MarineTrafficApiClient \<Rightarrow> VesselPosition network \<Rightarrow> string
     \<Rightarrow> (js_error + PositionResponse) \<times> event list" where
  "getVesselPositionTool rt apiClient net identifier =
     (if \<not> test_mmsi identifier \<and> \<not> test_imo_prefixed identifier then
        (Inl (rethrow ''Error retrieving vessel position: ''
                (McpError InvalidParams
                   ''Invalid vessel identifier. Must be a 9-digit MMSI number or IMO number (format: IMO1234567)'')),
         [])
      else
        case getVesselPosition apiClient net (cleanIdentifier identifier) of
             (Inl e, tr) \<Rightarrow> (Inl (rethrow ''Error retrieving vessel position: '' e), tr)
           | (Inr vesselPosition, tr) \<Rightarrow>
               (case last_update rt (vp_timestamp vesselPosition) of
                  Inl e \<Rightarrow> (Inl (rethrow ''Error retrieving vessel position: '' e), tr)
                | Inr t \<Rightarrow>
                    (Inr \<lparr> pr_mmsi = vp_mmsi vesselPosition,
                           pr_imo = or_str (vp_imo vesselPosition) ''N/A'',
                           pr_name = or_str (vp_ship_name vesselPosition) ''Unknown'',
                           pr_position =
                             \<lparr> latitude = vp_latitude vesselPosition,
                               longitude = vp_longitude vesselPosition \<rparr>,
                           pr_speed = String_of_number rt (vp_speed vesselPosition) @ '' knots'',
                           pr_course = with_unit rt (vp_course vesselPosition) degree_sign,
                           pr_heading = with_unit rt (vp_heading vesselPosition) degree_sign,
                           pr_status = or_str (vp_status vesselPosition) ''Unknown'',
                           pr_last_update = t,
                           pr_destination = or_str (vp_destination vesselPosition) ''Unknown'',
                           pr_eta = or_str (vp_eta vesselPosition) ''Unknown'' \<rparr>,
                     tr)))"

section \<open>The details tool\<close>

text \<open>\<^verbatim>\<open>details.year_built || 'N/A'\<close>: the number when truthy, the string otherwise.\<close>

definition year_built_or :: "number option \<Rightarrow> jsval" where
  "year_built_or y = (if truthy_num y then JNum (the y) else JStr ''N/A'')"

definition getVesselDetailsTool ::
  "runtime \<Rightarrow> MarineTrafficApiClient \<Rightarrow> VesselDetails network \<Rightarrow> string
     \<Rightarrow> (js_error + DetailsResponse) \<times> event list" where
  "getVesselDetailsTool rt apiClient net identifier =
     (if \<not> test_mmsi identifier \<and> \<not> test_imo_prefixed identifier then
        (Inl (rethrow ''Error retrieving vessel details: ''
                (McpError InvalidParams
                   ''Invalid vessel identifier. Must be a 9-digit MMSI number or IMO number (format: IMO1234567)'')),
         [])
      else
        case getVesselDetails apiClient net (cleanIdentifier identifier) of
             (Inl e, tr) \<Rightarrow> (Inl (rethrow ''Error retrieving vessel details: '' e), tr)
           | (Inr vesselDetails, tr) \<Rightarrow>
               (Inr \<lparr> dr_mmsi = vd_mmsi vesselDetails,
                      dr_imo = or_str (vd_imo vesselDetails) ''N/A'',
                      dr_name = vd_name vesselDetails,
                      dr_vessel_type =
                        \<lparr> vt_code = vd_ship_type vesselDetails,
                          vt_name =
                            or_str (vd_type_name vesselDetails)
                              (or_str (map_of SHIP_TYPE_MAPPING_details
                                         (vd_ship_type vesselDetails))
                                 ''Unknown'') \<rparr>,
                      dr_callsign = or_str (vd_callsign vesselDetails) ''N/A'',
                      dr_flag = or_str (vd_flag vesselDetails) ''N/A'',
                      dr_dimensions =
                        \<lparr> dim_length_overall =
                            with_unit rt (vd_length_overall vesselDetails) '' m'',
                          dim_breadth_extreme =
                            with_unit rt (vd_breadth_extreme vesselDetails) '' m'' \<rparr>,
                      dr_tonnage =
                        \<lparr> ton_gross = with_unit rt (vd_gross_tonnage vesselDetails) '' GT'',
                          ton_summer_dwt =
                            with_unit rt (vd_summer_dwt vesselDetails) '' t'' \<rparr>,
                      dr_year_built = year_built_or (vd_year_built vesselDetails),
                      dr_home_port = or_str (vd_home_port vesselDetails) ''N/A'' \<rparr>,
                tr))"

section \<open>The search tool\<close>

text \<open>
  The tool writes to the object it is given, so the model returns, with the result and
  the trace, the arguments as they are when the call ends.
\<close>

definition searchVesselsTool ::
  "runtime \<Rightarrow> MarineTrafficApiClient \<Rightarrow> VesselPosition list network \<Rightarrow> SearchParams
     \<Rightarrow> (js_error + SearchResponse) \<times> SearchParams \<times> event list" where
  "searchVesselsTool rt apiClient net args =
     (if \<not> truthy_str (sp_vessel_name args) \<and> \<not> truthy_str (sp_mmsi args)
         \<and> \<not> truthy_str (sp_imo args) \<and> \<not> truthy_num (sp_ship_type args) then
        (Inl (rethrow ''Error searching for vessels: ''
                (McpError InvalidParams
                   ''At least one search parameter (vessel_name, mmsi, imo, or ship_type) must be provided'')),
         args, [])
      else if truthy_str (sp_mmsi args) \<and> \<not> test_mmsi (the (sp_mmsi args)) then
        (Inl (rethrow ''Error searching for vessels: ''
                (McpError InvalidParams ''Invalid MMSI number. Must be a 9-digit number'')),
         args, [])
      else if truthy_str (sp_imo args) \<and> \<not> test_imo_prefixed (the (sp_imo args))
              \<and> \<not> test_imo_bare (the (sp_imo args)) then
        (Inl (rethrow ''Error searching for vessels: ''
                (McpError InvalidParams
                   INVALID_IMO_NUMBER)),
         args, [])
      else
        let args' =
              (if truthy_str (sp_imo args) \<and> startsWith (the (sp_imo args)) ''IMO''
               then args\<lparr> sp_imo := Some (substring (the (sp_imo args)) 3) \<rparr>
               else args)
        in case searchVessels apiClient net args' of
             (Inl e, tr) \<Rightarrow> (Inl (rethrow ''Error searching for vessels: '' e), args', tr)
           | (Inr vessels, tr) \<Rightarrow>
               (case map_throwing (formatVesselData rt) vessels of
                  Inl e \<Rightarrow> (Inl (rethrow ''Error searching for vessels: '' e), args', tr)
                | Inr formattedVessels \<Rightarrow>
                    (Inr \<lparr> sr_count = length formattedVessels,
                           sr_vessels = formattedVessels \<rparr>,
                     args', tr)))"

section \<open>The vessel resource\<close>

text \<open>\<^verbatim>\<open>uri.match(/^vessel:\/\/([^/]+)$/)\<close>: the captured group, when the URI matches.\<close>

definition match_vessel_uri :: "string \<Rightarrow> string option" where
  "match_vessel_uri uri =
     (if startsWith uri ''vessel://'' \<and> substring uri 9 \<noteq> []
         \<and> CHR ''/'' \<notin> set (substring uri 9)
      then Some (substring uri 9) else None)"

text \<open>
  What a response carries, where the code tests it for truthiness: an object of the
  declared interface (\<open>Some\<close>), or a falsy value (\<open>None\<close>), such as the empty string
  of a response without body, or \<open>null\<close>.
\<close>

type_synonym 'a body = "'a option"

text \<open>
  \<^verbatim>\<open>promise.catch(error => { console.error(...); return null; })\<close>: a branch that fails
  yields \<open>null\<close>, a branch that resolves yields its body. The resource only tests what
  a branch has yielded for truthiness (\<^verbatim>\<open>!position\<close>, \<^verbatim>\<open>position?.mmsi\<close>,
  \<^verbatim>\<open>position ? ... : undefined\<close>), so the \<open>null\<close> of a failed branch and a falsy body
  are one case, \<open>None\<close>. What is written to the console is not part of the model.
\<close>

definition catch_null :: "js_error + 'a body \<Rightarrow> 'a body" where
  "catch_null r = (case r of Inl e \<Rightarrow> None | Inr data \<Rightarrow> data)"

text \<open>The \<open>position\<close> entry of the combined object, absent when there is no position.\<close>

definition resource_position ::
  "runtime \<Rightarrow> VesselPosition option \<Rightarrow> js_error + ResourcePosition option" where
  "resource_position rt position =
     (case position of
        None \<Rightarrow> Inr None
      | Some p \<Rightarrow>
          (case last_update rt (vp_timestamp p) of
             Inl e \<Rightarrow> Inl e
           | Inr t \<Rightarrow> Inr (Some
               \<lparr> rp_latitude = vp_latitude p,
                 rp_longitude = vp_longitude p,
                 rp_speed = String_of_number rt (vp_speed p) @ '' knots'',
                 rp_course = with_unit rt (vp_course p) degree_sign,
                 rp_heading = with_unit rt (vp_heading p) degree_sign,
                 rp_status = or_str (vp_status p) ''Unknown'',
                 rp_last_update = t \<rparr>)))"

text \<open>
  The two fetches run side by side, each with its own \<open>catch\<close>; the model gives each
  branch its own network, whose responses carry bodies, and returns its trace apart: the
  requests and delays of the position branch, then those of the details branch. How the
  two interleave in time is not part of the model.
\<close>

definition getVesselResource ::
  "runtime \<Rightarrow> MarineTrafficApiClient \<Rightarrow> VesselPosition body network
     \<Rightarrow> VesselDetails body network
     \<Rightarrow> string \<Rightarrow> (js_error + VesselData) \<times> event list \<times> event list" where
  "getVesselResource rt apiClient netP netD uri =
     (case match_vessel_uri uri of
        None \<Rightarrow>
          (Inl (rethrow ''Error retrieving vessel resource: ''
                  (McpError InvalidRequest (''Invalid vessel resource URI: '' @ uri))),
           [], [])
      | Some encoded \<Rightarrow>
     (case decodeURIComponent rt encoded of
        None \<Rightarrow>
          (Inl (rethrow ''Error retrieving vessel resource: '' (Error ''URI malformed'')),
           [], [])
      | Some identifier \<Rightarrow>
      if \<not> test_mmsi identifier \<and> \<not> test_imo_prefixed identifier
         \<and> \<not> test_imo_bare identifier then
        (Inl (rethrow ''Error retrieving vessel resource: ''
                (McpError InvalidRequest
                   INVALID_VESSEL_IDENTIFIER)),
         [], [])
      else
        let positionBranch = getVesselPosition apiClient netP (cleanIdentifier identifier);
            detailsBranch = getVesselDetails apiClient netD (cleanIdentifier identifier);
            position = catch_null (fst positionBranch);
            details = catch_null (fst detailsBranch)
        in
          if position = None \<and> details = None then
            (Inl (rethrow ''Error retrieving vessel resource: ''
                    (McpError InvalidRequest
                       (''No data found for vessel with identifier: '' @ identifier))),
             snd positionBranch, snd detailsBranch)
          else
            (case resource_position rt position of
               Inl e \<Rightarrow>
                 (Inl (rethrow ''Error retrieving vessel resource: '' e),
                  snd positionBranch, snd detailsBranch)
             | Inr formattedPosition \<Rightarrow>
                 (Inr \<lparr> v_mmsi =
                          or_str (map_option vp_mmsi position)
                            (or_str (map_option vd_mmsi details) identifier),
                        v_imo =
                          or_str (Option.bind position vp_imo)
                            (or_str (Option.bind details vd_imo) ''N/A''),
                        v_name =
                          or_str (Option.bind position vp_ship_name)
                            (or_str (map_option vd_name details) ''Unknown''),
                        v_vessel_type =
                          (case details of
                             Some d \<Rightarrow> Some
                               \<lparr> vt_code = vd_ship_type d,
                                 vt_name =
                                   or_str (vd_type_name d)
                                     (or_str (map_of SHIP_TYPE_MAPPING (vd_ship_type d))
                                        ''Unknown'') \<rparr>
                           | None \<Rightarrow>
                               if truthy_num (Option.bind position vp_ship_type) then Some
                                 \<lparr> vt_code = the (Option.bind position vp_ship_type),
                                   vt_name =
                                     or_str (map_of SHIP_TYPE_MAPPING
                                               (the (Option.bind position vp_ship_type)))
                                       ''Unknown'' \<rparr>
                               else None),
                        v_position = formattedPosition,
                        v_details =
                          map_option
                            (\<lambda>d. \<lparr> rd_callsign = or_str (vd_callsign d) ''N/A'',
                                   rd_flag = or_str (vd_flag d) ''N/A'',
                                   rd_dimensions =
                                     \<lparr> dim_length_overall =
                                         with_unit rt (vd_length_overall d) '' m'',
                                       dim_breadth_extreme =
                                         with_unit rt (vd_breadth_extreme d) '' m'' \<rparr>,
                                   rd_tonnage =
                                     \<lparr> ton_gross = with_unit rt (vd_gross_tonnage d) '' GT'',
                                       ton_summer_dwt =
                                         with_unit rt (vd_summer_dwt d) '' t'' \<rparr>,
                                   rd_year_built = year_built_or (vd_year_built d),
                                   rd_home_port = or_str (vd_home_port d) ''N/A'' \<rparr>)
                            details,
                        v_voyage =
                          map_option
                            (\<lambda>p. \<lparr> voy_destination = or_str (vp_destination p) ''Unknown'',
                                   voy_eta = or_str (vp_eta p) ''Unknown'' \<rparr>)
                            position \<rparr>,
                  snd positionBranch, snd detailsBranch))))"


section \<open>Traces of rate-limited attempts\<close>

text \<open>
  The events of \<open>k\<close> attempts in a row that are answered 429 and retried, the first of
  them made at retry depth \<open>r\<close>: each is a request followed by its delay.
\<close>

fun backoff :: "MarineTrafficApiClient \<Rightarrow> string \<Rightarrow> params \<Rightarrow> nat \<Rightarrow> nat \<Rightarrow> event list" where
  "backoff c ep ps r 0 = []"
| "backoff c ep ps r (Suc k) =
     Get ep (interceptor c ps) # Sleep (retryDelay c * 2 ^ r) # backoff c ep ps (Suc r) k"

section \<open>Example inputs\<close>

text \<open>
  A client as the constructor builds it from the key \<open>KEY\<close>, and a runtime that renders
  natural numbers in decimal, takes every non-empty timestamp as already in ISO form and
  decodes a string without escapes to itself, taking any escape as malformed.
\<close>

definition example_client :: MarineTrafficApiClient where
  "example_client =
     \<lparr> apiKey = ''KEY'', baseUrl = ''https://services.marinetraffic.com/api'',
       retryDelay = 1000, maxRetries = 3 \<rparr>"

definition example_runtime :: runtime where
  "example_runtime =
     \<lparr> String_of_number = (\<lambda>q. decimal (nat \<lfloor>q\<rfloor>)),
       toISOString = (\<lambda>s. if s = [] then None else Some s),
       decodeURIComponent = (\<lambda>s. if CHR ''%'' \<in> set s then None else Some s) \<rparr>"

text \<open>
  Networks: one that answers 429 to the attempts at depth below \<open>n\<close> and gives a fixed
  outcome from depth \<open>n\<close> on, and one from which no response ever comes.
\<close>

definition too_many_requests :: "'a reply" where
  "too_many_requests =
     Reject (AxiosError ''Request failed with status code 429'' (Some (429, ''Too Many Requests'')))"

definition unauthorized :: "'a reply" where
  "unauthorized =
     Reject (AxiosError ''Request failed with status code 401'' (Some (401, ''Unauthorized'')))"

definition limited_then :: "nat \<Rightarrow> 'a reply \<Rightarrow> 'a network" where
  "limited_then n final = (\<lambda>k ep ps. if k < n then too_many_requests else final)"

definition unreachable :: "'a network" where
  "unreachable = (\<lambda>k ep ps. Reject (AxiosError ''timeout of 10000ms exceeded'' None))"

text \<open>
  Search arguments: none of the four fields, a vessel name that is there and empty, a
  search by name, prefixed IMO number and type, and a prefixed IMO number beside an MMSI
  of three digits.
\<close>

definition no_criteria :: SearchParams where
  "no_criteria = \<lparr> sp_vessel_name = None, sp_mmsi = None, sp_imo = None, sp_ship_type = None \<rparr>"

definition by_prefixed_imo :: SearchParams where
  "by_prefixed_imo =
     \<lparr> sp_vessel_name = Some ''EVER GIVEN'', sp_mmsi = None, sp_imo = Some ''IMO9811000'',
       sp_ship_type = Some 7 \<rparr>"

definition bad_mmsi_prefixed_imo :: SearchParams where
  "bad_mmsi_prefixed_imo =
     \<lparr> sp_vessel_name = None, sp_mmsi = Some ''123'', sp_imo = Some ''IMO9811000'',
       sp_ship_type = None \<rparr>"

definition empty_name :: SearchParams where
  "empty_name = \<lparr> sp_vessel_name = Some [], sp_mmsi = None, sp_imo = None, sp_ship_type = None \<rparr>"

text \<open>
  A position whose course, heading and ship type are the number zero, and the details
  of a vessel whose ship type is zero and whose type name is absent.
\<close>

definition example_position :: VesselPosition where
  "example_position =
     \<lparr> vp_mmsi = ''123456789'', vp_imo = Some ''9811000'', vp_ship_name = Some ''EVER GIVEN'',
       vp_latitude = 30, vp_longitude = 32, vp_speed = 12, vp_heading = Some 0,
       vp_course = Some 0, vp_status = Some ''Under way'',
       vp_timestamp = ''2021-03-23T05:40:00.000Z'', vp_ship_type = Some 0,
       vp_destination = Some ''ROTTERDAM'', vp_eta = Some ''2021-03-31T00:00:00.000Z'' \<rparr>"

definition example_details :: VesselDetails where
  "example_details =
     \<lparr> vd_mmsi = ''123456789'', vd_imo = Some ''9811000'', vd_name = ''EVER GIVEN'',
       vd_ship_type = 0, vd_type_name = None, vd_callsign = Some ''H3RC'',
       vd_flag = Some ''PA'', vd_gross_tonnage = Some 220940, vd_summer_dwt = Some 199629,
       vd_length_overall = Some 400, vd_breadth_extreme = Some 59, vd_year_built = Some 2018,
       vd_home_port = Some ''PANAMA'' \<rparr>"

section \<open>The retry loop\<close>

declare makeRequest.simps [simp del]

lemma makeRequest_Resolve:
  "net r ep (interceptor c ps) = Resolve d \<Longrightarrow>
   makeRequest c net ep ps r = (Inr d, [Get ep (interceptor c ps)])"
  by (subst makeRequest.simps) simp

lemma makeRequest_429:
  "net r ep (interceptor c ps) = Reject (AxiosError m (Some (429, b))) \<Longrightarrow> r < maxRetries c \<Longrightarrow>
   makeRequest c net ep ps r =
     (fst (makeRequest c net ep ps (Suc r)),
      Get ep (interceptor c ps) # Sleep (retryDelay c * 2 ^ r) # snd (makeRequest c net ep ps (Suc r)))"
  by (subst makeRequest.simps) (simp split: prod.splits)

lemma makeRequest_401:
  "net r ep (interceptor c ps) = Reject (AxiosError m (Some (401, b))) \<Longrightarrow>
   makeRequest c net ep ps r =
     (Inl (McpError InvalidRequest INVALID_API_KEY), [Get ep (interceptor c ps)])"
  by (subst makeRequest.simps) simp

lemma makeRequest_status:
  "net r ep (interceptor c ps) = Reject (AxiosError m (Some (status, b))) \<Longrightarrow>
   status \<noteq> 401 \<Longrightarrow> status \<noteq> 429 \<or> \<not> r < maxRetries c \<Longrightarrow>
   makeRequest c net ep ps r =
     (Inl (McpError InternalError (API_ERROR @ '': '' @ decimal status @ '' - '' @ b)),
      [Get ep (interceptor c ps)])"
  by (subst makeRequest.simps) auto

lemma makeRequest_no_response:
  "net r ep (interceptor c ps) = Reject (AxiosError m None) \<Longrightarrow>
   makeRequest c net ep ps r =
     (Inl (McpError InternalError NETWORK_ERROR), [Get ep (interceptor c ps)])"
  by (subst makeRequest.simps) simp

lemma makeRequest_other:
  "net r ep (interceptor c ps) = Reject e \<Longrightarrow> (\<And>m resp. e \<noteq> AxiosError m resp) \<Longrightarrow>
   makeRequest c net ep ps r = (Inl e, [Get ep (interceptor c ps)])"
  by (subst makeRequest.simps) (simp split: js_error.splits)

lemma new_client_fields:
  "new_MarineTrafficApiClient key = Inr c \<Longrightarrow>
   retryDelay c = 1000 \<and> maxRetries c = 3 \<and> apiKey c = key \<and> key \<noteq> []"
  by (auto simp: new_MarineTrafficApiClient_def split: if_splits)

lemma example_client_new: "new_MarineTrafficApiClient ''KEY'' = Inr example_client"
  by (simp add: new_MarineTrafficApiClient_def example_client_def)

lemma makeRequest_429_run:
  "(\<forall>j<k. \<exists>m b. net (r + j) ep (interceptor c ps) = Reject (AxiosError m (Some (429, b)))) \<Longrightarrow>
   r + k \<le> maxRetries c \<Longrightarrow>
   makeRequest c net ep ps r =
     (fst (makeRequest c net ep ps (r + k)),
      backoff c ep ps r k @ snd (makeRequest c net ep ps (r + k)))"
proof (induction k arbitrary: r)
  case 0
  then show ?case by simp
next
  case (Suc k)
  from Suc.prems(1) obtain m b where
    here: "net r ep (interceptor c ps) = Reject (AxiosError m (Some (429, b)))"
    by (metis add.right_neutral zero_less_Suc)
  have later: "\<forall>j<k. \<exists>m b. net (Suc r + j) ep (interceptor c ps) = Reject (AxiosError m (Some (429, b)))"
  proof (intro allI impI)
    fix j assume "j < k"
    then have "Suc j < Suc k" by simp
    with Suc.prems(1) have "\<exists>m b. net (r + Suc j) ep (interceptor c ps) = Reject (AxiosError m (Some (429, b)))"
      by blast
    then show "\<exists>m b. net (Suc r + j) ep (interceptor c ps) = Reject (AxiosError m (Some (429, b)))"
      by simp
  qed
  from Suc.prems(2) have bound: "Suc r + k \<le> maxRetries c" and lt: "r < maxRetries c"
    by simp_all
  have step: "makeRequest c net ep ps r =
     (fst (makeRequest c net ep ps (Suc r)),
      Get ep (interceptor c ps) # Sleep (retryDelay c * 2 ^ r) # snd (makeRequest c net ep ps (Suc r)))"
    using makeRequest_429 [of net r ep c ps m b, OF here lt] .
  from Suc.IH [of "Suc r", OF later bound] step show ?case by simp
qed

lemma backoff_3:
  "retryDelay c = 1000 \<Longrightarrow> backoff c ep ps 0 3 =
     [Get ep (interceptor c ps), Sleep 1000, Get ep (interceptor c ps), Sleep 2000,
      Get ep (interceptor c ps), Sleep 4000]"
  by (simp add: numeral_3_eq_3)

lemma makeRequest_last:
  "\<not> r < maxRetries c \<Longrightarrow>
   makeRequest c net ep ps r =
     ((case net r ep (interceptor c ps) of
         Resolve d \<Rightarrow> Inr d
       | Reject (AxiosError m None) \<Rightarrow> Inl (McpError InternalError NETWORK_ERROR)
       | Reject (AxiosError m (Some (status, body))) \<Rightarrow>
           if status = 401 then Inl (McpError InvalidRequest INVALID_API_KEY)
           else Inl (McpError InternalError (API_ERROR @ '': '' @ decimal status @ '' - '' @ body))
       | Reject e \<Rightarrow> Inl e),
      [Get ep (interceptor c ps)])"
  by (subst makeRequest.simps) (auto split: reply.splits js_error.splits option.splits)

text \<open>
  C3. With the client as constructed (delay 1000 ms, 3 retries), a request whose first
  three attempts are all answered 429 sends four requests, waits 1000 ms, 2000 ms and
  4000 ms between them, and returns what the fourth attempt gives, whatever it is: its
  data, the invalid-key error on 401, the API error on any other status (429 included),
  the network error when there is no response, or the error thrown, unchanged.
\<close>

theorem retry_delays_1000_2000_4000:
  assumes c: "new_MarineTrafficApiClient key = Inr c"
    and limited: "\<forall>k<3. \<exists>m b. net k ep (interceptor c ps) = Reject (AxiosError m (Some (429, b)))"
  shows "snd (makeRequest c net ep ps 0) =
           [Get ep (interceptor c ps), Sleep 1000,
            Get ep (interceptor c ps), Sleep 2000,
            Get ep (interceptor c ps), Sleep 4000,
            Get ep (interceptor c ps)]
         \<and> fst (makeRequest c net ep ps 0) =
           (case net 3 ep (interceptor c ps) of
              Resolve d \<Rightarrow> Inr d
            | Reject (AxiosError m None) \<Rightarrow> Inl (McpError InternalError NETWORK_ERROR)
            | Reject (AxiosError m (Some (status, body))) \<Rightarrow>
                if status = 401 then Inl (McpError InvalidRequest INVALID_API_KEY)
                else Inl (McpError InternalError
                            (API_ERROR @ '': '' @ decimal status @ '' - '' @ body))
            | Reject e \<Rightarrow> Inl e)"
proof -
  from c have f: "retryDelay c = 1000" "maxRetries c = 3"
    using new_client_fields by blast+
  from limited have run: "\<forall>j<3. \<exists>m b. net (0 + j) ep (interceptor c ps) = Reject (AxiosError m (Some (429, b)))"
    by simp
  have bound: "0 + 3 \<le> maxRetries c" by (simp add: f)
  have split: "makeRequest c net ep ps 0 =
     (fst (makeRequest c net ep ps 3), backoff c ep ps 0 3 @ snd (makeRequest c net ep ps 3))"
    using makeRequest_429_run [of 3 net 0 ep c ps, OF run bound] by simp
  have last: "\<not> 3 < maxRetries c" by (simp add: f)
  show ?thesis
    unfolding split makeRequest_last [OF last] backoff_3 [OF f(1)] by simp
qed

theorem retry_delays_1000_2000_4000_witness:
  "makeRequest example_client (limited_then 3 (Resolve (7::nat)))
     VESSEL_POSITION [(''mmsi'', JStr ''123456789'')] 0
   = (Inr 7,
      [Get VESSEL_POSITION [(''mmsi'', JStr ''123456789''), (''apiKey'', JStr ''KEY'')], Sleep 1000,
       Get VESSEL_POSITION [(''mmsi'', JStr ''123456789''), (''apiKey'', JStr ''KEY'')], Sleep 2000,
       Get VESSEL_POSITION [(''mmsi'', JStr ''123456789''), (''apiKey'', JStr ''KEY'')], Sleep 4000,
       Get VESSEL_POSITION [(''mmsi'', JStr ''123456789''), (''apiKey'', JStr ''KEY'')]])"
proof -
  let ?net = "limited_then 3 (Resolve (7::nat))"
  let ?ps = "[(''mmsi'', JStr ''123456789'')]"
  have l: "\<forall>k<3. \<exists>m b. ?net k VESSEL_POSITION (interceptor example_client ?ps)
      = Reject (AxiosError m (Some (429, b)))"
    by (simp add: limited_then_def too_many_requests_def)
  have i: "interceptor example_client ?ps = [(''mmsi'', JStr ''123456789''), (''apiKey'', JStr ''KEY'')]"
    by (simp add: interceptor_def example_client_def)
  from retry_delays_1000_2000_4000
         [of "''KEY''" example_client ?net VESSEL_POSITION ?ps, OF example_client_new l]
  show ?thesis
    by (simp add: i prod_eq_iff limited_then_def)
qed

lemma gets_append: "gets (xs @ ys) = gets xs @ gets ys"
  by (induction xs rule: gets.induct) simp_all

lemma length_gets_backoff: "length (gets (backoff c ep ps r k)) = k"
  by (induction k arbitrary: r) simp_all

text \<open>
  C4. With the client as constructed, a request answered 429 on all four attempts ends
  with the generic API error, an \<open>McpError\<close> of code \<open>InternalError\<close> whose message is
  \<open>MarineTraffic API error: 429 - \<close> followed by the body of the fourth response; the
  trace holds four requests and no fifth.
\<close>

theorem four_429_surface_as_api_error:
  assumes c: "new_MarineTrafficApiClient key = Inr c"
    and limited: "\<forall>k<4. \<exists>m. net k ep (interceptor c ps) = Reject (AxiosError m (Some (429, body k)))"
  shows "makeRequest c net ep ps 0 =
           (Inl (McpError InternalError (''MarineTraffic API error: 429 - '' @ body 3)),
            [Get ep (interceptor c ps), Sleep 1000,
             Get ep (interceptor c ps), Sleep 2000,
             Get ep (interceptor c ps), Sleep 4000,
             Get ep (interceptor c ps)])
         \<and> length (gets (snd (makeRequest c net ep ps 0))) = 4"
proof -
  from c have f: "retryDelay c = 1000" "maxRetries c = 3"
    using new_client_fields by blast+
  have run: "\<forall>j<3. \<exists>m b. net (0 + j) ep (interceptor c ps) = Reject (AxiosError m (Some (429, b)))"
  proof (intro allI impI)
    fix j :: nat
    assume "j < 3"
    then have "j < 4" by simp
    with limited have "\<exists>m. net j ep (interceptor c ps) = Reject (AxiosError m (Some (429, body j)))"
      by blast
    then show "\<exists>m b. net (0 + j) ep (interceptor c ps) = Reject (AxiosError m (Some (429, b)))"
      by auto
  qed
  have bound: "0 + 3 \<le> maxRetries c" by (simp add: f)
  have split: "makeRequest c net ep ps 0 =
     (fst (makeRequest c net ep ps 3), backoff c ep ps 0 3 @ snd (makeRequest c net ep ps 3))"
    using makeRequest_429_run [of 3 net 0 ep c ps, OF run bound] by simp
  have "(3::nat) < 4" by simp
  with limited obtain m where fourth:
    "net 3 ep (interceptor c ps) = Reject (AxiosError m (Some (429, body 3)))"
    by blast
  have last: "makeRequest c net ep ps 3 =
      (Inl (McpError InternalError (API_ERROR @ '': '' @ decimal 429 @ '' - '' @ body 3)),
       [Get ep (interceptor c ps)])"
    using makeRequest_status [of net 3 ep c ps m 429 "body 3", OF fourth] by (simp add: f)
  have d: "decimal 429 = ''429''" by code_simp
  have eq: "makeRequest c net ep ps 0 =
           (Inl (McpError InternalError (''MarineTraffic API error: 429 - '' @ body 3)),
            [Get ep (interceptor c ps), Sleep 1000,
             Get ep (interceptor c ps), Sleep 2000,
             Get ep (interceptor c ps), Sleep 4000,
             Get ep (interceptor c ps)])"
    unfolding split last backoff_3 [OF f(1)] d by (simp add: API_ERROR_def)
  show ?thesis unfolding eq by simp
qed

theorem four_429_surface_as_api_error_witness:
  "makeRequest example_client (limited_then 4 (Resolve (7::nat))) VESSEL_DETAILS [(''imo'', JStr ''1234567'')] 0 =
           (Inl (McpError InternalError ''MarineTraffic API error: 429 - Too Many Requests''),
            [Get VESSEL_DETAILS [(''imo'', JStr ''1234567''), (''apiKey'', JStr ''KEY'')], Sleep 1000,
             Get VESSEL_DETAILS [(''imo'', JStr ''1234567''), (''apiKey'', JStr ''KEY'')], Sleep 2000,
             Get VESSEL_DETAILS [(''imo'', JStr ''1234567''), (''apiKey'', JStr ''KEY'')], Sleep 4000,
             Get VESSEL_DETAILS [(''imo'', JStr ''1234567''), (''apiKey'', JStr ''KEY'')]])"
proof -
  let ?net = "limited_then 4 (Resolve (7::nat))"
  let ?ps = "[(''imo'', JStr ''1234567'')]"
  have l: "\<forall>k<4. \<exists>m. ?net k VESSEL_DETAILS (interceptor example_client ?ps)
      = Reject (AxiosError m (Some (429, (\<lambda>k. ''Too Many Requests'') k)))"
    by (simp add: limited_then_def too_many_requests_def)
  have i: "interceptor example_client ?ps = [(''imo'', JStr ''1234567''), (''apiKey'', JStr ''KEY'')]"
    by (simp add: interceptor_def example_client_def)
  from four_429_surface_as_api_error
         [of "''KEY''" example_client ?net VESSEL_DETAILS ?ps "\<lambda>k. ''Too Many Requests''", OF example_client_new l]
  show ?thesis
    by (simp add: i)
qed

text \<open>
  C5. An attempt answered 401 throws the invalid-key error at once, at whatever retry
  depth it is made: the call at that depth sends its one request and nothing more. So a
  request whose first \<open>k\<close> attempts are answered 429 (\<open>k\<close> at most the number of
  retries) and whose next attempt is answered 401 ends with the invalid-key error after
  \<open>k + 1\<close> requests, the last of them the one answered 401.
\<close>

theorem unauthorized_is_never_retried:
  assumes limited: "\<forall>j<k. \<exists>m b. net j ep (interceptor c ps) = Reject (AxiosError m (Some (429, b)))"
    and depth: "k \<le> maxRetries c"
    and denied: "net k ep (interceptor c ps) = Reject (AxiosError m (Some (401, b)))"
  shows "makeRequest c net ep ps k =
           (Inl (McpError InvalidRequest INVALID_API_KEY), [Get ep (interceptor c ps)])
         \<and> makeRequest c net ep ps 0 =
           (Inl (McpError InvalidRequest INVALID_API_KEY),
            backoff c ep ps 0 k @ [Get ep (interceptor c ps)])
         \<and> length (gets (snd (makeRequest c net ep ps 0))) = Suc k"
proof -
  have here: "makeRequest c net ep ps k =
           (Inl (McpError InvalidRequest INVALID_API_KEY), [Get ep (interceptor c ps)])"
    using makeRequest_401 [of net k ep c ps m b, OF denied] .
  from limited have run: "\<forall>j<k. \<exists>m b. net (0 + j) ep (interceptor c ps) = Reject (AxiosError m (Some (429, b)))"
    by simp
  from depth have bound: "0 + k \<le> maxRetries c" by simp
  have whole: "makeRequest c net ep ps 0 =
           (Inl (McpError InvalidRequest INVALID_API_KEY),
            backoff c ep ps 0 k @ [Get ep (interceptor c ps)])"
    using makeRequest_429_run [of k net 0 ep c ps, OF run bound] here by simp
  show ?thesis unfolding whole using here by (simp add: gets_append length_gets_backoff)
qed

theorem unauthorized_is_never_retried_witness:
  "makeRequest example_client (limited_then 2 (unauthorized :: nat reply)) VESSEL_SEARCH [(''vessel_name'', JStr ''EVER GIVEN'')] 0 =
     (Inl (McpError InvalidRequest ''Invalid MarineTraffic API key''),
      [Get VESSEL_SEARCH [(''vessel_name'', JStr ''EVER GIVEN''), (''apiKey'', JStr ''KEY'')], Sleep 1000,
       Get VESSEL_SEARCH [(''vessel_name'', JStr ''EVER GIVEN''), (''apiKey'', JStr ''KEY'')], Sleep 2000,
       Get VESSEL_SEARCH [(''vessel_name'', JStr ''EVER GIVEN''), (''apiKey'', JStr ''KEY'')]])"
proof -
  let ?net = "limited_then 2 (unauthorized :: nat reply)"
  let ?ps = "[(''vessel_name'', JStr ''EVER GIVEN'')]"
  have l: "\<forall>j<2. \<exists>m b. ?net j VESSEL_SEARCH (interceptor example_client ?ps)
      = Reject (AxiosError m (Some (429, b)))"
    by (simp add: limited_then_def too_many_requests_def)
  have d: "2 \<le> maxRetries example_client"
    by (simp add: example_client_def)
  have u: "?net 2 VESSEL_SEARCH (interceptor example_client ?ps)
      = Reject (AxiosError ''Request failed with status code 401'' (Some (401, ''Unauthorized'')))"
    by (simp add: limited_then_def unauthorized_def)
  have i: "interceptor example_client ?ps = [(''vessel_name'', JStr ''EVER GIVEN''), (''apiKey'', JStr ''KEY'')]"
    by (simp add: interceptor_def example_client_def)
  have r: "backoff example_client VESSEL_SEARCH ?ps 0 2 =
      [Get VESSEL_SEARCH (interceptor example_client ?ps), Sleep 1000,
       Get VESSEL_SEARCH (interceptor example_client ?ps), Sleep 2000]"
    by (simp add: example_client_def numeral_2_eq_2)
  from unauthorized_is_never_retried
         [of 2 ?net VESSEL_SEARCH example_client ?ps "''Request failed with status code 401''" "''Unauthorized''", OF l d u]
  show ?thesis
    by (simp add: r i INVALID_API_KEY_def)
qed


lemma makeRequest_unreachable:
  "makeRequest c unreachable ep ps r =
     (Inl (McpError InternalError NETWORK_ERROR), [Get ep (interceptor c ps)])"
  by (rule makeRequest_no_response) (simp add: unreachable_def)

lemma makeRequest_answered:
  "makeRequest c (limited_then 0 (Resolve d)) ep ps r = (Inr d, [Get ep (interceptor c ps)])"
  by (rule makeRequest_Resolve) (simp add: limited_then_def)

section \<open>What is sent\<close>

lemma gets_makeRequest:
  "set (gets (snd (makeRequest c net ep ps r))) = {(ep, interceptor c ps)}"
proof (induction c net ep ps r rule: makeRequest.induct)
  case (1 c net endpoint ps retryCount)
  show ?case
    by (subst makeRequest.simps)
       (use 1 in \<open>auto split: reply.splits js_error.splits option.splits prod.splits\<close>)
qed

lemma interceptor_apiKey: "map_of (interceptor c ps) ''apiKey'' = Some (JStr (apiKey c))"
  by (simp add: interceptor_def update_conv')

lemma interceptor_other: "k \<noteq> ''apiKey'' \<Longrightarrow> map_of (interceptor c ps) k = map_of ps k"
  by (simp add: interceptor_def update_conv')

lemma interceptor_keys:
  "fst ` set (interceptor c ps) = insert ''apiKey'' (fst ` set ps)"
  by (simp add: interceptor_def dom_update)


lemma gets_makeRequest_nonempty: "gets (snd (makeRequest c net ep ps r)) \<noteq> []"
  using gets_makeRequest [of c net ep ps r] by auto

text \<open>
  C2. The parameter object that \<open>getVesselPosition\<close> and \<open>getVesselDetails\<close> build from
  an identifier has the key \<open>mmsi\<close> exactly when the identifier is nine digits and the key
  \<open>imo\<close> exactly when it is not; and in every request either operation sends, exactly one
  of the two keys is there, \<open>mmsi\<close> exactly when the identifier is nine digits.
\<close>

theorem exactly_one_of_mmsi_imo:
  "(''mmsi'' \<in> fst ` set (getVesselPosition_params identifier)) = test_mmsi identifier
   \<and> (''imo'' \<in> fst ` set (getVesselPosition_params identifier)) = (\<not> test_mmsi identifier)
   \<and> (''mmsi'' \<in> fst ` set (getVesselDetails_params identifier)) = test_mmsi identifier
   \<and> (''imo'' \<in> fst ` set (getVesselDetails_params identifier)) = (\<not> test_mmsi identifier)
   \<and> (\<forall>(e, sent) \<in> set (gets (snd (getVesselPosition c netP identifier))).
        (''mmsi'' \<in> fst ` set sent) \<noteq> (''imo'' \<in> fst ` set sent)
        \<and> (''mmsi'' \<in> fst ` set sent) = test_mmsi identifier)
   \<and> (\<forall>(e, sent) \<in> set (gets (snd (getVesselDetails c netD identifier))).
        (''mmsi'' \<in> fst ` set sent) \<noteq> (''imo'' \<in> fst ` set sent)
        \<and> (''mmsi'' \<in> fst ` set sent) = test_mmsi identifier)"
  by (simp add: getVesselPosition_params_def getVesselDetails_params_def
        getVesselPosition_def getVesselDetails_def gets_makeRequest interceptor_keys)

theorem exactly_one_of_mmsi_imo_witness:
  "(VESSEL_POSITION, [(''mmsi'', JStr ''123456789''), (''apiKey'', JStr ''KEY'')])
     \<in> set (gets (snd (getVesselPosition example_client
                          (unreachable :: VesselPosition network) ''123456789'')))
   \<and> ''mmsi'' \<in> fst ` set [(''mmsi'', JStr ''123456789''), (''apiKey'', JStr ''KEY'')]
   \<and> ''imo'' \<notin> fst ` set [(''mmsi'', JStr ''123456789''), (''apiKey'', JStr ''KEY'')]
   \<and> (VESSEL_DETAILS, [(''imo'', JStr ''1234567''), (''apiKey'', JStr ''KEY'')])
     \<in> set (gets (snd (getVesselDetails example_client
                          (unreachable :: VesselDetails network) ''1234567'')))
   \<and> ''mmsi'' \<notin> fst ` set [(''imo'', JStr ''1234567''), (''apiKey'', JStr ''KEY'')]
   \<and> ''imo'' \<in> fst ` set [(''imo'', JStr ''1234567''), (''apiKey'', JStr ''KEY'')]"
proof -
  have p: "(VESSEL_POSITION, [(''mmsi'', JStr ''123456789''), (''apiKey'', JStr ''KEY'')])
     \<in> set (gets (snd (getVesselPosition example_client
                          (unreachable :: VesselPosition network) ''123456789'')))"
    by (simp add: getVesselPosition_def getVesselPosition_params_def test_mmsi_def digits_def
          digit_def gets_makeRequest interceptor_def example_client_def)
  have d: "(VESSEL_DETAILS, [(''imo'', JStr ''1234567''), (''apiKey'', JStr ''KEY'')])
     \<in> set (gets (snd (getVesselDetails example_client
                          (unreachable :: VesselDetails network) ''1234567'')))"
    by (simp add: getVesselDetails_def getVesselDetails_params_def test_mmsi_def digits_def
          digit_def gets_makeRequest interceptor_def example_client_def)
  have m: "test_mmsi ''123456789''" "\<not> test_mmsi ''1234567''"
    by (simp_all add: test_mmsi_def digits_def digit_def)
  from exactly_one_of_mmsi_imo
         [of "''123456789''" example_client unreachable unreachable]
       exactly_one_of_mmsi_imo
         [of "''1234567''" example_client unreachable unreachable] p d m
  show ?thesis by fastforce
qed

text \<open>
  C8. Every request that one of the four operations sends carries the stored key under
  \<open>apiKey\<close>; every other key has the value the operation's own parameter object gives
  it, or is absent as it is there; each operation sends at least one request; and none
  of the four parameter objects has the key \<open>apiKey\<close> itself.
\<close>

theorem credential_on_every_request:
  "(\<forall>(e, sent) \<in> set (gets (snd (getVesselPosition c netP identifier))).
      map_of sent ''apiKey'' = Some (JStr (apiKey c))
      \<and> (\<forall>k. k \<noteq> ''apiKey'' \<longrightarrow> map_of sent k = map_of (getVesselPosition_params identifier) k))
   \<and> gets (snd (getVesselPosition c netP identifier)) \<noteq> []
   \<and> map_of (getVesselPosition_params identifier) ''apiKey'' = None
   \<and> (\<forall>(e, sent) \<in> set (gets (snd (getVesselDetails c netD identifier))).
      map_of sent ''apiKey'' = Some (JStr (apiKey c))
      \<and> (\<forall>k. k \<noteq> ''apiKey'' \<longrightarrow> map_of sent k = map_of (getVesselDetails_params identifier) k))
   \<and> gets (snd (getVesselDetails c netD identifier)) \<noteq> []
   \<and> map_of (getVesselDetails_params identifier) ''apiKey'' = None
   \<and> (\<forall>(e, sent) \<in> set (gets (snd (searchVessels c netS searchParams))).
      map_of sent ''apiKey'' = Some (JStr (apiKey c))
      \<and> (\<forall>k. k \<noteq> ''apiKey'' \<longrightarrow> map_of sent k = map_of (SearchParams_params searchParams) k))
   \<and> gets (snd (searchVessels c netS searchParams)) \<noteq> []
   \<and> map_of (SearchParams_params searchParams) ''apiKey'' = None
   \<and> (\<forall>(e, sent) \<in> set (gets (snd (getVesselsInArea c netA areaParams))).
      map_of sent ''apiKey'' = Some (JStr (apiKey c))
      \<and> (\<forall>k. k \<noteq> ''apiKey'' \<longrightarrow> map_of sent k = map_of (AreaParams_params areaParams) k))
   \<and> gets (snd (getVesselsInArea c netA areaParams)) \<noteq> []
   \<and> map_of (AreaParams_params areaParams) ''apiKey'' = None"
proof -
  have 1: "map_of (getVesselPosition_params identifier) ''apiKey'' = None"
    by (simp add: getVesselPosition_params_def)
  have 2: "map_of (getVesselDetails_params identifier) ''apiKey'' = None"
    by (simp add: getVesselDetails_params_def)
  have 3: "map_of (SearchParams_params searchParams) ''apiKey'' = None"
    by (simp add: SearchParams_params_def entry_def split: option.splits)
  have 4: "map_of (AreaParams_params areaParams) ''apiKey'' = None"
    by (simp add: AreaParams_params_def entry_def split: option.splits)
  show ?thesis
    by (simp add: 1 2 3 4 getVesselPosition_def getVesselDetails_def searchVessels_def
          getVesselsInArea_def gets_makeRequest gets_makeRequest_nonempty
          interceptor_apiKey interceptor_other)
qed

theorem credential_on_every_request_witness:
  "(VESSEL_POSITION, [(''mmsi'', JStr ''123456789''), (''apiKey'', JStr ''KEY'')])
     \<in> set (gets (snd (getVesselPosition example_client
                          (unreachable :: VesselPosition network) ''123456789'')))
   \<and> map_of [(''mmsi'', JStr ''123456789''), (''apiKey'', JStr ''KEY'')] ''apiKey''
       = Some (JStr (apiKey example_client))
   \<and> map_of [(''mmsi'', JStr ''123456789''), (''apiKey'', JStr ''KEY'')] ''mmsi''
       = map_of (getVesselPosition_params ''123456789'') ''mmsi''"
proof -
  let ?sent = "[(''mmsi'', JStr ''123456789''), (''apiKey'', JStr ''KEY'')]"
  have sent: "(VESSEL_POSITION, ?sent)
     \<in> set (gets (snd (getVesselPosition example_client
                          (unreachable :: VesselPosition network) ''123456789'')))"
    by (simp add: getVesselPosition_def getVesselPosition_params_def test_mmsi_def digits_def
          digit_def gets_makeRequest interceptor_def example_client_def)
  have every: "\<forall>(e, sent) \<in> set (gets (snd (getVesselPosition example_client
                          (unreachable :: VesselPosition network) ''123456789''))).
      map_of sent ''apiKey'' = Some (JStr (apiKey example_client))
      \<and> (\<forall>k. k \<noteq> ''apiKey'' \<longrightarrow> map_of sent k = map_of (getVesselPosition_params ''123456789'') k)"
    using credential_on_every_request
            [of example_client unreachable "''123456789''" unreachable unreachable undefined
                unreachable undefined]
    by (rule conjunct1)
  have here: "map_of ?sent ''apiKey'' = Some (JStr (apiKey example_client))
      \<and> (\<forall>k. k \<noteq> ''apiKey'' \<longrightarrow> map_of ?sent k = map_of (getVesselPosition_params ''123456789'') k)"
    using bspec [OF every sent] unfolding prod.case .
  have other: "''mmsi'' \<noteq> ''apiKey''"
    by simp
  from here have "\<forall>k. k \<noteq> ''apiKey'' \<longrightarrow>
      map_of ?sent k = map_of (getVesselPosition_params ''123456789'') k"
    by (rule conjunct2)
  then have "''mmsi'' \<noteq> ''apiKey'' \<longrightarrow>
      map_of ?sent ''mmsi'' = map_of (getVesselPosition_params ''123456789'') ''mmsi''"
    by (rule spec)
  then have kept: "map_of ?sent ''mmsi'' = map_of (getVesselPosition_params ''123456789'') ''mmsi''"
    using other by (rule mp)
  from here have key: "map_of ?sent ''apiKey'' = Some (JStr (apiKey example_client))"
    by (rule conjunct1)
  from sent key kept show ?thesis
    by (intro conjI)
qed


section \<open>Validation of identifiers\<close>

lemma startsWith_IMO: "startsWith s ''IMO'' = (take 3 s = ''IMO'')"
  by (simp add: startsWith_def numeral_3_eq_3)

lemma digits_not_IMO: "digits n s \<Longrightarrow> \<not> startsWith s ''IMO''"
  by (cases s) (auto simp: digits_def startsWith_def digit_def)

lemma clean_mmsi: "test_mmsi s \<Longrightarrow> cleanIdentifier s = s"
  by (simp add: test_mmsi_def cleanIdentifier_def digits_not_IMO)

lemma clean_imo_bare: "test_imo_bare s \<Longrightarrow> cleanIdentifier s = s \<and> \<not> test_mmsi s"
  by (auto simp: test_imo_bare_def test_mmsi_def cleanIdentifier_def digits_not_IMO digits_def)

lemma clean_imo_prefixed:
  "test_imo_prefixed s \<Longrightarrow> cleanIdentifier s = drop 3 s \<and> \<not> test_mmsi (drop 3 s)"
  by (auto simp: test_imo_prefixed_def test_mmsi_def cleanIdentifier_def digits_def
        startsWith_IMO substring_def)

lemma patterns_exclusive:
  "\<not> (test_mmsi s \<and> test_imo_prefixed s)" "\<not> (test_mmsi s \<and> test_imo_bare s)"
  "\<not> (test_imo_prefixed s \<and> test_imo_bare s)"
  by (auto simp: test_mmsi_def test_imo_prefixed_def test_imo_bare_def digits_def)

lemma snd_getVesselPositionTool:
  "test_mmsi s \<or> test_imo_prefixed s \<Longrightarrow>
   snd (getVesselPositionTool rt c net s) = snd (getVesselPosition c net (cleanIdentifier s))"
  by (auto simp: getVesselPositionTool_def split: prod.splits sum.splits)

lemma snd_getVesselDetailsTool:
  "test_mmsi s \<or> test_imo_prefixed s \<Longrightarrow>
   snd (getVesselDetailsTool rt c net s) = snd (getVesselDetails c net (cleanIdentifier s))"
  by (auto simp: getVesselDetailsTool_def split: prod.splits sum.splits)

lemma snd_getVesselResource:
  "match_vessel_uri uri = Some enc \<Longrightarrow> decodeURIComponent rt enc = Some s \<Longrightarrow>
   test_mmsi s \<or> test_imo_prefixed s \<or> test_imo_bare s \<Longrightarrow>
   snd (getVesselResource rt c netP netD uri) =
     (snd (getVesselPosition c netP (cleanIdentifier s)),
      snd (getVesselDetails c netD (cleanIdentifier s)))"
  by (auto simp: getVesselResource_def Let_def split: sum.splits)

lemma rethrow_McpError: "rethrow p (McpError code m) = McpError code m"
  by (simp add: rethrow_def)


lemma gets_getVesselPosition:
  "set (gets (snd (getVesselPosition c net s))) =
     {(VESSEL_POSITION, interceptor c (getVesselPosition_params s))}"
  by (simp add: getVesselPosition_def gets_makeRequest)

lemma gets_getVesselDetails:
  "set (gets (snd (getVesselDetails c net s))) =
     {(VESSEL_DETAILS, interceptor c (getVesselDetails_params s))}"
  by (simp add: getVesselDetails_def gets_makeRequest)

lemma params_mmsi:
  "test_mmsi s \<Longrightarrow> getVesselPosition_params s = [(''mmsi'', JStr s)]"
  "test_mmsi s \<Longrightarrow> getVesselDetails_params s = [(''mmsi'', JStr s)]"
  by (simp_all add: getVesselPosition_params_def getVesselDetails_params_def)

lemma params_imo:
  "\<not> test_mmsi s \<Longrightarrow> getVesselPosition_params s = [(''imo'', JStr s)]"
  "\<not> test_mmsi s \<Longrightarrow> getVesselDetails_params s = [(''imo'', JStr s)]"
  by (simp_all add: getVesselPosition_params_def getVesselDetails_params_def)

lemma tools_mmsi:
  assumes "test_mmsi s"
  shows "set (gets (snd (getVesselPositionTool rt c netP s))) =
           {(VESSEL_POSITION, interceptor c [(''mmsi'', JStr s)])}"
    and "set (gets (snd (getVesselDetailsTool rt c netD s))) =
           {(VESSEL_DETAILS, interceptor c [(''mmsi'', JStr s)])}"
  using assms
  by (simp_all add: snd_getVesselPositionTool snd_getVesselDetailsTool clean_mmsi
        gets_getVesselPosition gets_getVesselDetails params_mmsi)

lemma tools_imo_prefixed:
  assumes "test_imo_prefixed s"
  shows "set (gets (snd (getVesselPositionTool rt c netP s))) =
           {(VESSEL_POSITION, interceptor c [(''imo'', JStr (drop 3 s))])}"
    and "set (gets (snd (getVesselDetailsTool rt c netD s))) =
           {(VESSEL_DETAILS, interceptor c [(''imo'', JStr (drop 3 s))])}"
  using assms
  by (simp_all add: snd_getVesselPositionTool snd_getVesselDetailsTool clean_imo_prefixed
        gets_getVesselPosition gets_getVesselDetails params_imo)

lemma tools_reject:
  assumes "\<not> test_mmsi s" "\<not> test_imo_prefixed s"
  shows "getVesselPositionTool rt c netP s =
           (Inl (McpError InvalidParams
              ''Invalid vessel identifier. Must be a 9-digit MMSI number or IMO number (format: IMO1234567)''), [])"
    and "getVesselDetailsTool rt c netD s =
           (Inl (McpError InvalidParams
              ''Invalid vessel identifier. Must be a 9-digit MMSI number or IMO number (format: IMO1234567)''), [])"
  using assms
  by (simp_all add: getVesselPositionTool_def getVesselDetailsTool_def rethrow_McpError)

lemma resource_requests:
  assumes "match_vessel_uri uri = Some enc" "decodeURIComponent rt enc = Some s"
  shows "test_mmsi s \<Longrightarrow>
           set (gets (fst (snd (getVesselResource rt c netP netD uri)))) =
             {(VESSEL_POSITION, interceptor c [(''mmsi'', JStr s)])}
           \<and> set (gets (snd (snd (getVesselResource rt c netP netD uri)))) =
             {(VESSEL_DETAILS, interceptor c [(''mmsi'', JStr s)])}"
    and "test_imo_prefixed s \<Longrightarrow>
           set (gets (fst (snd (getVesselResource rt c netP netD uri)))) =
             {(VESSEL_POSITION, interceptor c [(''imo'', JStr (drop 3 s))])}
           \<and> set (gets (snd (snd (getVesselResource rt c netP netD uri)))) =
             {(VESSEL_DETAILS, interceptor c [(''imo'', JStr (drop 3 s))])}"
    and "test_imo_bare s \<Longrightarrow>
           set (gets (fst (snd (getVesselResource rt c netP netD uri)))) =
             {(VESSEL_POSITION, interceptor c [(''imo'', JStr s)])}
           \<and> set (gets (snd (snd (getVesselResource rt c netP netD uri)))) =
             {(VESSEL_DETAILS, interceptor c [(''imo'', JStr s)])}"
    and "\<not> test_mmsi s \<Longrightarrow> \<not> test_imo_prefixed s \<Longrightarrow> \<not> test_imo_bare s \<Longrightarrow>
           getVesselResource rt c netP netD uri =
             (Inl (McpError InvalidRequest INVALID_VESSEL_IDENTIFIER), [], [])"
proof -
  show "test_mmsi s \<Longrightarrow>
           set (gets (fst (snd (getVesselResource rt c netP netD uri)))) =
             {(VESSEL_POSITION, interceptor c [(''mmsi'', JStr s)])}
           \<and> set (gets (snd (snd (getVesselResource rt c netP netD uri)))) =
             {(VESSEL_DETAILS, interceptor c [(''mmsi'', JStr s)])}"
    using assms
    by (simp add: snd_getVesselResource clean_mmsi gets_getVesselPosition
          gets_getVesselDetails params_mmsi)
  show "test_imo_prefixed s \<Longrightarrow>
           set (gets (fst (snd (getVesselResource rt c netP netD uri)))) =
             {(VESSEL_POSITION, interceptor c [(''imo'', JStr (drop 3 s))])}
           \<and> set (gets (snd (snd (getVesselResource rt c netP netD uri)))) =
             {(VESSEL_DETAILS, interceptor c [(''imo'', JStr (drop 3 s))])}"
    using assms
    by (simp add: snd_getVesselResource clean_imo_prefixed gets_getVesselPosition
          gets_getVesselDetails params_imo)
  show "test_imo_bare s \<Longrightarrow>
           set (gets (fst (snd (getVesselResource rt c netP netD uri)))) =
             {(VESSEL_POSITION, interceptor c [(''imo'', JStr s)])}
           \<and> set (gets (snd (snd (getVesselResource rt c netP netD uri)))) =
             {(VESSEL_DETAILS, interceptor c [(''imo'', JStr s)])}"
    using assms
    by (simp add: snd_getVesselResource clean_imo_bare gets_getVesselPosition
          gets_getVesselDetails params_imo)
  show "\<not> test_mmsi s \<Longrightarrow> \<not> test_imo_prefixed s \<Longrightarrow> \<not> test_imo_bare s \<Longrightarrow>
           getVesselResource rt c netP netD uri =
             (Inl (McpError InvalidRequest INVALID_VESSEL_IDENTIFIER), [], [])"
    using assms by (simp add: getVesselResource_def rethrow_McpError)
qed

text \<open>
  C1, as the code has it. The position tool and the details tool take an identifier of
  nine digits as an MMSI and one of \<open>IMO\<close> followed by seven digits as an IMO number, sent
  without the prefix; every other identifier, seven bare digits included, they reject
  with an \<open>InvalidParams\<close> error and an empty trace. The vessel resource, given a URI
  whose identifier decodes, takes these two forms the same way and seven bare digits as
  an IMO number too; every other identifier it rejects with an \<open>InvalidRequest\<close> error
  and two empty traces.
\<close>

theorem identifier_validation:
  "(test_mmsi identifier \<longrightarrow>
      set (gets (snd (getVesselPositionTool rt c netP identifier))) =
        {(VESSEL_POSITION, interceptor c [(''mmsi'', JStr identifier)])}
      \<and> set (gets (snd (getVesselDetailsTool rt c netD identifier))) =
        {(VESSEL_DETAILS, interceptor c [(''mmsi'', JStr identifier)])})
   \<and> (test_imo_prefixed identifier \<longrightarrow>
      set (gets (snd (getVesselPositionTool rt c netP identifier))) =
        {(VESSEL_POSITION, interceptor c [(''imo'', JStr (drop 3 identifier))])}
      \<and> set (gets (snd (getVesselDetailsTool rt c netD identifier))) =
        {(VESSEL_DETAILS, interceptor c [(''imo'', JStr (drop 3 identifier))])})
   \<and> (\<not> test_mmsi identifier \<and> \<not> test_imo_prefixed identifier \<longrightarrow>
      getVesselPositionTool rt c netP identifier =
        (Inl (McpError InvalidParams
           ''Invalid vessel identifier. Must be a 9-digit MMSI number or IMO number (format: IMO1234567)''), [])
      \<and> getVesselDetailsTool rt c netD identifier =
        (Inl (McpError InvalidParams
           ''Invalid vessel identifier. Must be a 9-digit MMSI number or IMO number (format: IMO1234567)''), []))
   \<and> (match_vessel_uri uri = Some encoded \<and> decodeURIComponent rt encoded = Some identifier \<longrightarrow>
      (test_mmsi identifier \<longrightarrow>
         set (gets (fst (snd (getVesselResource rt c resP resD uri)))) =
           {(VESSEL_POSITION, interceptor c [(''mmsi'', JStr identifier)])}
         \<and> set (gets (snd (snd (getVesselResource rt c resP resD uri)))) =
           {(VESSEL_DETAILS, interceptor c [(''mmsi'', JStr identifier)])})
      \<and> (test_imo_prefixed identifier \<longrightarrow>
         set (gets (fst (snd (getVesselResource rt c resP resD uri)))) =
           {(VESSEL_POSITION, interceptor c [(''imo'', JStr (drop 3 identifier))])}
         \<and> set (gets (snd (snd (getVesselResource rt c resP resD uri)))) =
           {(VESSEL_DETAILS, interceptor c [(''imo'', JStr (drop 3 identifier))])})
      \<and> (test_imo_bare identifier \<longrightarrow>
         set (gets (fst (snd (getVesselResource rt c resP resD uri)))) =
           {(VESSEL_POSITION, interceptor c [(''imo'', JStr identifier)])}
         \<and> set (gets (snd (snd (getVesselResource rt c resP resD uri)))) =
           {(VESSEL_DETAILS, interceptor c [(''imo'', JStr identifier)])})
      \<and> (\<not> test_mmsi identifier \<and> \<not> test_imo_prefixed identifier
           \<and> \<not> test_imo_bare identifier \<longrightarrow>
         getVesselResource rt c resP resD uri =
           (Inl (McpError InvalidRequest INVALID_VESSEL_IDENTIFIER), [], [])))"
proof (intro conjI impI; (elim conjE)?)
  show "set (gets (snd (getVesselPositionTool rt c netP identifier))) =
        {(VESSEL_POSITION, interceptor c [(''mmsi'', JStr identifier)])}"
    if "test_mmsi identifier" using that by (rule tools_mmsi)
  show "set (gets (snd (getVesselDetailsTool rt c netD identifier))) =
        {(VESSEL_DETAILS, interceptor c [(''mmsi'', JStr identifier)])}"
    if "test_mmsi identifier" using that by (rule tools_mmsi)
  show "set (gets (snd (getVesselPositionTool rt c netP identifier))) =
        {(VESSEL_POSITION, interceptor c [(''imo'', JStr (drop 3 identifier))])}"
    if "test_imo_prefixed identifier" using that by (rule tools_imo_prefixed)
  show "set (gets (snd (getVesselDetailsTool rt c netD identifier))) =
        {(VESSEL_DETAILS, interceptor c [(''imo'', JStr (drop 3 identifier))])}"
    if "test_imo_prefixed identifier" using that by (rule tools_imo_prefixed)
  show "getVesselPositionTool rt c netP identifier =
        (Inl (McpError InvalidParams
           ''Invalid vessel identifier. Must be a 9-digit MMSI number or IMO number (format: IMO1234567)''), [])"
    if "\<not> test_mmsi identifier" "\<not> test_imo_prefixed identifier"
    using that by (rule tools_reject)
  show "getVesselDetailsTool rt c netD identifier =
        (Inl (McpError InvalidParams
           ''Invalid vessel identifier. Must be a 9-digit MMSI number or IMO number (format: IMO1234567)''), [])"
    if "\<not> test_mmsi identifier" "\<not> test_imo_prefixed identifier"
    using that by (rule tools_reject)
next
  assume u: "match_vessel_uri uri = Some encoded" "decodeURIComponent rt encoded = Some identifier"
  note r = resource_requests [OF u, of c resP resD]
  {
    assume "test_mmsi identifier"
    from r(1) [OF this]
    show "set (gets (fst (snd (getVesselResource rt c resP resD uri)))) =
           {(VESSEL_POSITION, interceptor c [(''mmsi'', JStr identifier)])}"
      and "set (gets (snd (snd (getVesselResource rt c resP resD uri)))) =
           {(VESSEL_DETAILS, interceptor c [(''mmsi'', JStr identifier)])}"
      by (rule conjunct1, rule conjunct2)
  next
    assume "test_imo_prefixed identifier"
    from r(2) [OF this]
    show "set (gets (fst (snd (getVesselResource rt c resP resD uri)))) =
           {(VESSEL_POSITION, interceptor c [(''imo'', JStr (drop 3 identifier))])}"
      and "set (gets (snd (snd (getVesselResource rt c resP resD uri)))) =
           {(VESSEL_DETAILS, interceptor c [(''imo'', JStr (drop 3 identifier))])}"
      by (rule conjunct1, rule conjunct2)
  next
    assume "test_imo_bare identifier"
    from r(3) [OF this]
    show "set (gets (fst (snd (getVesselResource rt c resP resD uri)))) =
           {(VESSEL_POSITION, interceptor c [(''imo'', JStr identifier)])}"
      and "set (gets (snd (snd (getVesselResource rt c resP resD uri)))) =
           {(VESSEL_DETAILS, interceptor c [(''imo'', JStr identifier)])}"
      by (rule conjunct1, rule conjunct2)
  next
    assume "\<not> test_mmsi identifier" "\<not> test_imo_prefixed identifier"
      "\<not> test_imo_bare identifier"
    then show "getVesselResource rt c resP resD uri =
           (Inl (McpError InvalidRequest INVALID_VESSEL_IDENTIFIER), [], [])"
      by (rule r(4))
  }
qed

theorem identifier_validation_witness:
  "test_mmsi ''123456789''
   \<and> set (gets (snd (getVesselDetailsTool example_runtime example_client unreachable
                        ''123456789''))) =
       {(VESSEL_DETAILS, [(''mmsi'', JStr ''123456789''), (''apiKey'', JStr ''KEY'')])}
   \<and> test_imo_prefixed ''IMO1234567''
   \<and> set (gets (snd (getVesselPositionTool example_runtime example_client unreachable
                        ''IMO1234567''))) =
       {(VESSEL_POSITION, [(''imo'', JStr ''1234567''), (''apiKey'', JStr ''KEY'')])}
   \<and> test_imo_bare ''7654321''
   \<and> match_vessel_uri ''vessel://7654321'' = Some ''7654321''
   \<and> decodeURIComponent example_runtime ''7654321'' = Some ''7654321''
   \<and> set (gets (snd (snd (getVesselResource example_runtime example_client unreachable
                             unreachable ''vessel://7654321'')))) =
       {(VESSEL_DETAILS, [(''imo'', JStr ''7654321''), (''apiKey'', JStr ''KEY'')])}
   \<and> \<not> test_mmsi ''12345'' \<and> \<not> test_imo_prefixed ''12345'' \<and> \<not> test_imo_bare ''12345''
   \<and> match_vessel_uri ''vessel://12345'' = Some ''12345''
   \<and> decodeURIComponent example_runtime ''12345'' = Some ''12345''
   \<and> getVesselDetailsTool example_runtime example_client unreachable ''12345'' =
       (Inl (McpError InvalidParams
          ''Invalid vessel identifier. Must be a 9-digit MMSI number or IMO number (format: IMO1234567)''), [])
   \<and> getVesselResource example_runtime example_client unreachable unreachable ''vessel://12345'' =
       (Inl (McpError InvalidRequest INVALID_VESSEL_IDENTIFIER), [], [])"
proof -
  have t: "test_mmsi ''123456789''" "test_imo_prefixed ''IMO1234567''" "test_imo_bare ''7654321''"
    "\<not> test_mmsi ''12345''" "\<not> test_imo_prefixed ''12345''" "\<not> test_imo_bare ''12345''"
    by (simp_all add: test_mmsi_def test_imo_prefixed_def test_imo_bare_def digits_def digit_def)
  have u: "match_vessel_uri ''vessel://7654321'' = Some ''7654321''"
    "match_vessel_uri ''vessel://12345'' = Some ''12345''"
    by (simp_all add: match_vessel_uri_def startsWith_def substring_def)
  have d: "decodeURIComponent example_runtime ''7654321'' = Some ''7654321''"
    "decodeURIComponent example_runtime ''12345'' = Some ''12345''"
    by (simp_all add: example_runtime_def)
  have i: "interceptor example_client [(k, v)] = [(k, v), (''apiKey'', JStr ''KEY'')]"
    if "k \<noteq> ''apiKey''" for k v
    using that by (simp add: interceptor_def example_client_def)
  have 1: "set (gets (snd (getVesselDetailsTool example_runtime example_client unreachable
                        ''123456789''))) =
       {(VESSEL_DETAILS, [(''mmsi'', JStr ''123456789''), (''apiKey'', JStr ''KEY'')])}"
    using identifier_validation
            [of "''123456789''" example_runtime example_client unreachable unreachable
                "''vessel://123456789''" "''123456789''" unreachable unreachable] t(1)
    by (simp add: i)
  have 2: "set (gets (snd (getVesselPositionTool example_runtime example_client unreachable
                        ''IMO1234567''))) =
       {(VESSEL_POSITION, [(''imo'', JStr ''1234567''), (''apiKey'', JStr ''KEY'')])}"
    using identifier_validation
            [of "''IMO1234567''" example_runtime example_client unreachable unreachable
                "''vessel://IMO1234567''" "''IMO1234567''" unreachable unreachable] t(2)
    by (simp add: i)
  have 3: "set (gets (snd (snd (getVesselResource example_runtime example_client unreachable
                             unreachable ''vessel://7654321'')))) =
       {(VESSEL_DETAILS, [(''imo'', JStr ''7654321''), (''apiKey'', JStr ''KEY'')])}"
    using identifier_validation
            [of "''7654321''" example_runtime example_client unreachable unreachable
                "''vessel://7654321''" "''7654321''" unreachable unreachable] t(3) u(1) d(1)
    by (simp add: i)
  have 4: "getVesselDetailsTool example_runtime example_client unreachable ''12345'' =
       (Inl (McpError InvalidParams
          ''Invalid vessel identifier. Must be a 9-digit MMSI number or IMO number (format: IMO1234567)''), [])
     \<and> getVesselResource example_runtime example_client unreachable unreachable ''vessel://12345'' =
       (Inl (McpError InvalidRequest INVALID_VESSEL_IDENTIFIER), [], [])"
    using identifier_validation
            [of "''12345''" example_runtime example_client unreachable unreachable
                "''vessel://12345''" "''12345''" unreachable unreachable] t(4,5,6) u(2) d(2)
    by simp
  from t u d 1 2 3 4 show ?thesis
    by (intro conjI) (rule conjunct1, assumption | rule conjunct2, assumption | assumption)+
qed

text \<open>
  C1, as stated, fails: the position tool rejects the seven digits \<open>1234567\<close> without
  sending anything.
\<close>

theorem bare_imo_rejected_by_position_tool:
  "test_imo_bare ''1234567''
   \<and> getVesselPositionTool example_runtime example_client unreachable ''1234567'' =
       (Inl (McpError InvalidParams
          ''Invalid vessel identifier. Must be a 9-digit MMSI number or IMO number (format: IMO1234567)''), [])"
  by (simp add: test_imo_bare_def test_mmsi_def test_imo_prefixed_def digits_def digit_def
        getVesselPositionTool_def rethrow_McpError)



section \<open>The search tool's checks\<close>

lemma gets_searchVessels:
  "set (gets (snd (searchVessels c net a))) = {(VESSEL_SEARCH, interceptor c (SearchParams_params a))}"
  by (simp add: searchVessels_def gets_makeRequest)

lemma searchVesselsTool_none:
  "\<not> truthy_str (sp_vessel_name args) \<Longrightarrow> \<not> truthy_str (sp_mmsi args) \<Longrightarrow>
   \<not> truthy_str (sp_imo args) \<Longrightarrow> \<not> truthy_num (sp_ship_type args) \<Longrightarrow>
   searchVesselsTool rt c net args =
     (Inl (McpError InvalidParams
        ''At least one search parameter (vessel_name, mmsi, imo, or ship_type) must be provided''),
      args, [])"
  by (simp add: searchVesselsTool_def rethrow_McpError)

lemma searchVesselsTool_bad_mmsi:
  "truthy_str (sp_mmsi args) \<Longrightarrow> \<not> test_mmsi (the (sp_mmsi args)) \<Longrightarrow>
   searchVesselsTool rt c net args =
     (Inl (McpError InvalidParams ''Invalid MMSI number. Must be a 9-digit number''), args, [])"
  by (simp add: searchVesselsTool_def rethrow_McpError)

lemma searchVesselsTool_bad_imo:
  "truthy_str (sp_mmsi args) \<longrightarrow> test_mmsi (the (sp_mmsi args)) \<Longrightarrow>
   truthy_str (sp_imo args) \<Longrightarrow> \<not> test_imo_prefixed (the (sp_imo args)) \<Longrightarrow>
   \<not> test_imo_bare (the (sp_imo args)) \<Longrightarrow>
   searchVesselsTool rt c net args = (Inl (McpError InvalidParams INVALID_IMO_NUMBER), args, [])"
  by (auto simp add: searchVesselsTool_def rethrow_McpError)

text \<open>The arguments as the tool leaves them when its three checks pass.\<close>

lemma searchVesselsTool_proceeds:
  assumes "truthy_str (sp_vessel_name args) \<or> truthy_str (sp_mmsi args)
           \<or> truthy_str (sp_imo args) \<or> truthy_num (sp_ship_type args)"
    and "truthy_str (sp_mmsi args) \<longrightarrow> test_mmsi (the (sp_mmsi args))"
    and "truthy_str (sp_imo args) \<longrightarrow>
           test_imo_prefixed (the (sp_imo args)) \<or> test_imo_bare (the (sp_imo args))"
  shows "snd (searchVesselsTool rt c net args) =
           (let args' = (if truthy_str (sp_imo args) \<and> startsWith (the (sp_imo args)) ''IMO''
                         then args\<lparr> sp_imo := Some (substring (the (sp_imo args)) 3) \<rparr>
                         else args)
            in (args', snd (searchVessels c net args')))"
  using assms
  by (auto simp add: searchVesselsTool_def Let_def split: prod.splits sum.splits)


text \<open>
  C6, as the code has it, for search arguments whose ship type, when there is one, is
  not zero. A string that is absent or empty counts as not given. When none of the three
  strings is given and there is no ship type, the tool rejects with the \<open>InvalidParams\<close>
  error of the at-least-one check, leaving its arguments as they are and sending
  nothing. When one of the strings is given or there is a ship type, that check passes:
  an MMSI that is given and is not nine digits is rejected by the MMSI check, then an
  IMO number that is given and has neither form by the IMO check, and otherwise a
  request is sent.
\<close>

theorem search_needs_a_criterion:
  assumes nonzero: "sp_ship_type args \<noteq> Some 0"
  shows
  "(\<not> truthy_str (sp_vessel_name args) \<and> \<not> truthy_str (sp_mmsi args)
      \<and> \<not> truthy_str (sp_imo args) \<and> sp_ship_type args = None \<longrightarrow>
      searchVesselsTool rt c net args =
        (Inl (McpError InvalidParams
           ''At least one search parameter (vessel_name, mmsi, imo, or ship_type) must be provided''),
         args, []))
   \<and> (truthy_str (sp_vessel_name args) \<or> truthy_str (sp_mmsi args)
      \<or> truthy_str (sp_imo args) \<or> sp_ship_type args \<noteq> None \<longrightarrow>
      (truthy_str (sp_mmsi args) \<and> \<not> test_mmsi (the (sp_mmsi args)) \<longrightarrow>
         searchVesselsTool rt c net args =
           (Inl (McpError InvalidParams ''Invalid MMSI number. Must be a 9-digit number''),
            args, []))
      \<and> ((truthy_str (sp_mmsi args) \<longrightarrow> test_mmsi (the (sp_mmsi args)))
          \<and> truthy_str (sp_imo args) \<and> \<not> test_imo_prefixed (the (sp_imo args))
          \<and> \<not> test_imo_bare (the (sp_imo args)) \<longrightarrow>
         searchVesselsTool rt c net args =
           (Inl (McpError InvalidParams INVALID_IMO_NUMBER), args, []))
      \<and> ((truthy_str (sp_mmsi args) \<longrightarrow> test_mmsi (the (sp_mmsi args)))
          \<and> (truthy_str (sp_imo args) \<longrightarrow>
                test_imo_prefixed (the (sp_imo args)) \<or> test_imo_bare (the (sp_imo args))) \<longrightarrow>
         gets (snd (snd (searchVesselsTool rt c net args))) \<noteq> []))"
proof -
  from nonzero have type: "truthy_num (sp_ship_type args) = (sp_ship_type args \<noteq> None)"
    by (cases "sp_ship_type args") (simp_all add: truthy_num_def)
  show ?thesis
  proof (intro conjI impI; (elim conjE)?)
    show "searchVesselsTool rt c net args =
          (Inl (McpError InvalidParams
             ''At least one search parameter (vessel_name, mmsi, imo, or ship_type) must be provided''),
           args, [])"
      if "\<not> truthy_str (sp_vessel_name args)" "\<not> truthy_str (sp_mmsi args)"
        "\<not> truthy_str (sp_imo args)" "sp_ship_type args = None"
    proof (rule searchVesselsTool_none)
      from that(4) show "\<not> truthy_num (sp_ship_type args)" by (simp add: truthy_num_def)
    qed (use that in simp_all)
  next
    show "searchVesselsTool rt c net args =
             (Inl (McpError InvalidParams ''Invalid MMSI number. Must be a 9-digit number''),
              args, [])"
      if "truthy_str (sp_mmsi args)" "\<not> test_mmsi (the (sp_mmsi args))"
      using that by (rule searchVesselsTool_bad_mmsi)
  next
    show "searchVesselsTool rt c net args =
             (Inl (McpError InvalidParams INVALID_IMO_NUMBER), args, [])"
      if "truthy_str (sp_mmsi args) \<longrightarrow> test_mmsi (the (sp_mmsi args))"
        "truthy_str (sp_imo args)" "\<not> test_imo_prefixed (the (sp_imo args))"
        "\<not> test_imo_bare (the (sp_imo args))"
      using that by (rule searchVesselsTool_bad_imo)
  next
    assume "truthy_str (sp_vessel_name args) \<or> truthy_str (sp_mmsi args)
        \<or> truthy_str (sp_imo args) \<or> sp_ship_type args \<noteq> None"
    then have some: "truthy_str (sp_vessel_name args) \<or> truthy_str (sp_mmsi args)
        \<or> truthy_str (sp_imo args) \<or> truthy_num (sp_ship_type args)"
      by (simp add: type)
    assume mmsi: "truthy_str (sp_mmsi args) \<longrightarrow> test_mmsi (the (sp_mmsi args))"
      and imo: "truthy_str (sp_imo args) \<longrightarrow>
                  test_imo_prefixed (the (sp_imo args)) \<or> test_imo_bare (the (sp_imo args))"
    from searchVesselsTool_proceeds [OF some mmsi imo, of rt c net]
    obtain args' where
      "snd (snd (searchVesselsTool rt c net args)) = snd (searchVessels c net args')"
      by (simp add: Let_def)
    then show "gets (snd (snd (searchVesselsTool rt c net args))) \<noteq> []"
      by (simp add: searchVessels_def gets_makeRequest_nonempty)
  qed
qed

theorem search_needs_a_criterion_witness:
  "sp_ship_type no_criteria \<noteq> Some 0
   \<and> \<not> truthy_str (sp_vessel_name no_criteria) \<and> \<not> truthy_str (sp_mmsi no_criteria)
   \<and> \<not> truthy_str (sp_imo no_criteria) \<and> sp_ship_type no_criteria = None
   \<and> searchVesselsTool example_runtime example_client unreachable no_criteria =
        (Inl (McpError InvalidParams
           ''At least one search parameter (vessel_name, mmsi, imo, or ship_type) must be provided''),
         no_criteria, [])
   \<and> sp_ship_type by_prefixed_imo \<noteq> Some 0
   \<and> truthy_str (sp_vessel_name by_prefixed_imo)
   \<and> gets (snd (snd (searchVesselsTool example_runtime example_client unreachable
                        by_prefixed_imo))) \<noteq> []
   \<and> sp_ship_type bad_mmsi_prefixed_imo \<noteq> Some 0
   \<and> truthy_str (sp_mmsi bad_mmsi_prefixed_imo)
   \<and> searchVesselsTool example_runtime example_client unreachable bad_mmsi_prefixed_imo =
        (Inl (McpError InvalidParams ''Invalid MMSI number. Must be a 9-digit number''),
         bad_mmsi_prefixed_imo, [])"
proof -
  have z: "sp_ship_type no_criteria \<noteq> Some 0" "sp_ship_type by_prefixed_imo \<noteq> Some 0"
    "sp_ship_type bad_mmsi_prefixed_imo \<noteq> Some 0"
    by (simp_all add: no_criteria_def by_prefixed_imo_def bad_mmsi_prefixed_imo_def)
  have n: "\<not> truthy_str (sp_vessel_name no_criteria)" "\<not> truthy_str (sp_mmsi no_criteria)"
    "\<not> truthy_str (sp_imo no_criteria)" "sp_ship_type no_criteria = None"
    by (simp_all add: no_criteria_def truthy_str_def)
  have p: "truthy_str (sp_vessel_name by_prefixed_imo)" "\<not> truthy_str (sp_mmsi by_prefixed_imo)"
    "truthy_str (sp_imo by_prefixed_imo)" "test_imo_prefixed (the (sp_imo by_prefixed_imo))"
    by (simp_all add: by_prefixed_imo_def truthy_str_def test_imo_prefixed_def digits_def digit_def)
  have b: "truthy_str (sp_mmsi bad_mmsi_prefixed_imo)"
    "\<not> test_mmsi (the (sp_mmsi bad_mmsi_prefixed_imo))"
    by (simp_all add: bad_mmsi_prefixed_imo_def truthy_str_def test_mmsi_def digits_def)
  have 1: "searchVesselsTool example_runtime example_client unreachable no_criteria =
        (Inl (McpError InvalidParams
           ''At least one search parameter (vessel_name, mmsi, imo, or ship_type) must be provided''),
         no_criteria, [])"
    using search_needs_a_criterion
            [OF z(1), of example_runtime example_client unreachable] n
    by simp
  have 2: "gets (snd (snd (searchVesselsTool example_runtime example_client unreachable
                        by_prefixed_imo))) \<noteq> []"
    using search_needs_a_criterion
            [OF z(2), of example_runtime example_client unreachable] p
    by simp
  have 3: "searchVesselsTool example_runtime example_client unreachable bad_mmsi_prefixed_imo =
        (Inl (McpError InvalidParams ''Invalid MMSI number. Must be a 9-digit number''),
         bad_mmsi_prefixed_imo, [])"
    using search_needs_a_criterion
            [OF z(3), of example_runtime example_client unreachable] b
    by simp
  from z(1) n 1 z(2) p(1) 2 z(3) b(1) 3 show ?thesis
    by (intro conjI)
qed

text \<open>
  C6, as stated, fails: with a vessel name that is present and empty, and nothing else,
  the tool rejects with the error of the at-least-one check.
\<close>

theorem present_but_empty_name_rejected:
  "sp_vessel_name empty_name \<noteq> None
   \<and> searchVesselsTool example_runtime example_client unreachable empty_name =
       (Inl (McpError InvalidParams
          ''At least one search parameter (vessel_name, mmsi, imo, or ship_type) must be provided''),
        empty_name, [])"
  by (simp add: searchVesselsTool_def empty_name_def truthy_str_def truthy_num_def rethrow_McpError)


text \<open>
  C9, as the code has it. The search tool writes to its arguments only after its three
  checks have passed. When they pass and the IMO number is \<open>IMO\<close> followed by seven
  digits, the field \<open>imo\<close> holds the seven digits when the call ends, and they are what
  is sent; in every other case, a rejected call included, the arguments end as they
  began. The three other fields are never written.
\<close>

theorem search_strips_imo_in_place:
  "fst (snd (searchVesselsTool rt c net args)) =
     (if (truthy_str (sp_mmsi args) \<longrightarrow> test_mmsi (the (sp_mmsi args)))
         \<and> truthy_str (sp_imo args) \<and> test_imo_prefixed (the (sp_imo args))
      then args\<lparr> sp_imo := Some (drop 3 (the (sp_imo args))) \<rparr>
      else args)
   \<and> sp_vessel_name (fst (snd (searchVesselsTool rt c net args))) = sp_vessel_name args
   \<and> sp_mmsi (fst (snd (searchVesselsTool rt c net args))) = sp_mmsi args
   \<and> sp_ship_type (fst (snd (searchVesselsTool rt c net args))) = sp_ship_type args
   \<and> ((truthy_str (sp_mmsi args) \<longrightarrow> test_mmsi (the (sp_mmsi args)))
        \<and> truthy_str (sp_imo args) \<and> test_imo_prefixed (the (sp_imo args)) \<longrightarrow>
      set (gets (snd (snd (searchVesselsTool rt c net args)))) =
        {(VESSEL_SEARCH,
          interceptor c (SearchParams_params (args\<lparr> sp_imo := Some (drop 3 (the (sp_imo args))) \<rparr>)))})"
proof -
  let ?passes = "(truthy_str (sp_mmsi args) \<longrightarrow> test_mmsi (the (sp_mmsi args)))
         \<and> truthy_str (sp_imo args) \<and> test_imo_prefixed (the (sp_imo args))"
  let ?stripped = "args\<lparr> sp_imo := Some (drop 3 (the (sp_imo args))) \<rparr>"
  have prefixed: "startsWith s ''IMO''" "\<not> test_imo_bare s" if "test_imo_prefixed s" for s
    using that patterns_exclusive(3) [of s] by (auto simp: test_imo_prefixed_def startsWith_IMO)
  have bare: "\<not> startsWith s ''IMO''" if "test_imo_bare s" for s
    using that by (simp add: test_imo_bare_def digits_not_IMO)
  have yes: "snd (searchVesselsTool rt c net args) = (?stripped, snd (searchVessels c net ?stripped))"
    if "?passes"
  proof -
    from that have "snd (searchVesselsTool rt c net args) =
           (let args' = (if truthy_str (sp_imo args) \<and> startsWith (the (sp_imo args)) ''IMO''
                         then args\<lparr> sp_imo := Some (substring (the (sp_imo args)) 3) \<rparr>
                         else args)
            in (args', snd (searchVessels c net args')))"
      by (intro searchVesselsTool_proceeds) simp_all
    with that show ?thesis
      by (simp add: prefixed substring_def Let_def)
  qed
  have no: "fst (snd (searchVesselsTool rt c net args)) = args" if "\<not> ?passes"
  proof (cases "\<not> truthy_str (sp_vessel_name args) \<and> \<not> truthy_str (sp_mmsi args)
      \<and> \<not> truthy_str (sp_imo args) \<and> \<not> truthy_num (sp_ship_type args)")
    case True
    then show ?thesis by (simp add: searchVesselsTool_none)
  next
    case some: False
    show ?thesis
    proof (cases "truthy_str (sp_mmsi args) \<and> \<not> test_mmsi (the (sp_mmsi args))")
      case True
      then show ?thesis by (simp add: searchVesselsTool_bad_mmsi)
    next
      case mmsi: False
      show ?thesis
      proof (cases "truthy_str (sp_imo args) \<and> \<not> test_imo_prefixed (the (sp_imo args))
          \<and> \<not> test_imo_bare (the (sp_imo args))")
        case True
        with mmsi show ?thesis by (simp add: searchVesselsTool_bad_imo)
      next
        case imo: False
        from some mmsi imo have "snd (searchVesselsTool rt c net args) =
           (let args' = (if truthy_str (sp_imo args) \<and> startsWith (the (sp_imo args)) ''IMO''
                         then args\<lparr> sp_imo := Some (substring (the (sp_imo args)) 3) \<rparr>
                         else args)
            in (args', snd (searchVessels c net args')))"
          by (intro searchVesselsTool_proceeds) auto
        moreover from that mmsi imo have "\<not> (truthy_str (sp_imo args) \<and> startsWith (the (sp_imo args)) ''IMO'')"
          using bare by auto
        ultimately show ?thesis by (simp add: Let_def)
      qed
    qed
  qed
  have args': "fst (snd (searchVesselsTool rt c net args)) = (if ?passes then ?stripped else args)"
  proof (cases ?passes)
    case True
    from yes [OF True] show ?thesis by (subst if_P [OF True]) simp
  next
    case False
    from no [OF False] show ?thesis by (subst if_not_P [OF False]) simp
  qed
  have sent: "set (gets (snd (snd (searchVesselsTool rt c net args)))) =
        {(VESSEL_SEARCH, interceptor c (SearchParams_params ?stripped))}" if "?passes"
    using yes [OF that] by (simp add: gets_searchVessels)
  have frame: "sp_vessel_name (fst (snd (searchVesselsTool rt c net args))) = sp_vessel_name args"
    "sp_mmsi (fst (snd (searchVesselsTool rt c net args))) = sp_mmsi args"
    "sp_ship_type (fst (snd (searchVesselsTool rt c net args))) = sp_ship_type args"
    unfolding args' by simp_all
  from args' frame sent show ?thesis
    by (intro conjI impI)
qed


theorem search_strips_imo_in_place_witness:
  "truthy_str (sp_imo by_prefixed_imo) \<and> test_imo_prefixed (the (sp_imo by_prefixed_imo))
   \<and> \<not> truthy_str (sp_mmsi by_prefixed_imo)
   \<and> fst (snd (searchVesselsTool example_runtime example_client unreachable by_prefixed_imo)) =
       \<lparr> sp_vessel_name = Some ''EVER GIVEN'', sp_mmsi = None, sp_imo = Some ''9811000'',
         sp_ship_type = Some 7 \<rparr>
   \<and> set (gets (snd (snd (searchVesselsTool example_runtime example_client unreachable
                             by_prefixed_imo)))) =
       {(VESSEL_SEARCH,
         [(''vessel_name'', JStr ''EVER GIVEN''), (''imo'', JStr ''9811000''),
          (''ship_type'', JNum 7), (''apiKey'', JStr ''KEY'')])}"
proof -
  have p: "\<not> truthy_str (sp_mmsi by_prefixed_imo)"
    "truthy_str (sp_imo by_prefixed_imo)" "test_imo_prefixed (the (sp_imo by_prefixed_imo))"
    by (simp_all add: by_prefixed_imo_def truthy_str_def test_imo_prefixed_def digits_def digit_def)
  have stripped: "by_prefixed_imo\<lparr> sp_imo := Some (drop 3 (the (sp_imo by_prefixed_imo))) \<rparr> =
      \<lparr> sp_vessel_name = Some ''EVER GIVEN'', sp_mmsi = None, sp_imo = Some ''9811000'',
         sp_ship_type = Some 7 \<rparr>"
    by (simp add: by_prefixed_imo_def)
  have sent: "interceptor example_client (SearchParams_params
      \<lparr> sp_vessel_name = Some ''EVER GIVEN'', sp_mmsi = None, sp_imo = Some ''9811000'',
         sp_ship_type = Some 7 \<rparr>) =
      [(''vessel_name'', JStr ''EVER GIVEN''), (''imo'', JStr ''9811000''),
          (''ship_type'', JNum 7), (''apiKey'', JStr ''KEY'')]"
    by (simp add: SearchParams_params_def entry_def interceptor_def example_client_def)
  from search_strips_imo_in_place
         [of example_runtime example_client unreachable by_prefixed_imo] p
  have "fst (snd (searchVesselsTool example_runtime example_client unreachable by_prefixed_imo)) =
       \<lparr> sp_vessel_name = Some ''EVER GIVEN'', sp_mmsi = None, sp_imo = Some ''9811000'',
         sp_ship_type = Some 7 \<rparr>
   \<and> set (gets (snd (snd (searchVesselsTool example_runtime example_client unreachable
                             by_prefixed_imo)))) =
       {(VESSEL_SEARCH,
         [(''vessel_name'', JStr ''EVER GIVEN''), (''imo'', JStr ''9811000''),
          (''ship_type'', JNum 7), (''apiKey'', JStr ''KEY'')])}"
    by (simp add: stripped sent)
  with p show ?thesis
    by (intro conjI) (rule conjunct1, assumption | rule conjunct2, assumption | assumption)+
qed

text \<open>
  C9, as stated, fails: an IMO number that is present and begins with \<open>IMO\<close> stays as it
  is when the call is rejected before the write, here by the MMSI check.
\<close>

theorem prefixed_imo_kept_when_mmsi_rejected:
  "sp_imo bad_mmsi_prefixed_imo = Some ''IMO9811000''
   \<and> startsWith ''IMO9811000'' ''IMO''
   \<and> sp_imo (fst (snd (searchVesselsTool example_runtime example_client unreachable
                         bad_mmsi_prefixed_imo))) = Some ''IMO9811000''"
  by (simp add: searchVesselsTool_def bad_mmsi_prefixed_imo_def truthy_str_def truthy_num_def
        test_mmsi_def digits_def startsWith_def)


section \<open>The combined lookup of the vessel resource\<close>




lemma catch_null_None: "(catch_null r = None) = (isl r \<or> r = Inr None)"
  by (cases r) (simp_all add: catch_null_def)

lemma catch_null_Some: "(catch_null r = Some x) = (r = Inr (Some x))"
  by (cases r) (simp_all add: catch_null_def)




section \<open>Zero in the formatted payloads\<close>

lemma with_unit_falsy:
  "x = Some 0 \<or> x = None \<Longrightarrow> with_unit rt x suffix = ''N/A''"
  by (auto simp: with_unit_def truthy_num_def)

lemma truthy_num_zero: "\<not> truthy_num (Some 0)" "\<not> truthy_num None"
  by (simp_all add: truthy_num_def)

lemma formatVesselData_course:
  "formatVesselData rt v = Inr f \<Longrightarrow> vp_course v = Some 0 \<or> vp_course v = None \<Longrightarrow>
   fv_course f = ''N/A''"
  by (auto simp: formatVesselData_def with_unit_falsy split: sum.splits)

lemma formatVesselData_type:
  "formatVesselData rt v = Inr f \<Longrightarrow> vp_ship_type v = Some 0 \<or> vp_ship_type v = None \<Longrightarrow>
   fv_type f = ''Unknown''"
  by (auto simp: formatVesselData_def truthy_num_zero split: sum.splits)

lemma formatVesselData_course_absent:
  "vp_course v = Some 0 \<Longrightarrow>
   formatVesselData rt (v\<lparr> vp_course := None \<rparr>) = formatVesselData rt v"
  by (simp add: formatVesselData_def with_unit_falsy split: sum.splits)

lemma formatVesselData_type_absent:
  "vp_ship_type v = Some 0 \<Longrightarrow>
   formatVesselData rt (v\<lparr> vp_ship_type := None \<rparr>) = formatVesselData rt v"
  by (simp add: formatVesselData_def truthy_num_zero split: sum.splits)

lemma position_tool_course_heading:
  assumes "fst (getVesselPosition c net (cleanIdentifier identifier)) = Inr v"
    and "fst (getVesselPositionTool rt c net identifier) = Inr r"
  shows "(vp_course v = Some 0 \<or> vp_course v = None \<longrightarrow> pr_course r = ''N/A'')
       \<and> (vp_heading v = Some 0 \<or> vp_heading v = None \<longrightarrow> pr_heading r = ''N/A'')"
  using assms
  by (auto simp: getVesselPositionTool_def with_unit_falsy split: if_splits prod.splits sum.splits)

lemma resource_position_course_heading:
  assumes "resource_position rt (Some p) = Inr (Some rp)"
  shows "(vp_course p = Some 0 \<or> vp_course p = None \<longrightarrow> rp_course rp = ''N/A'')
       \<and> (vp_heading p = Some 0 \<or> vp_heading p = None \<longrightarrow> rp_heading rp = ''N/A'')"
  using assms
  by (auto simp: resource_position_def with_unit_falsy split: sum.splits)


lemma resource_position_only:
  assumes "match_vessel_uri uri = Some encoded" "decodeURIComponent rt encoded = Some identifier"
    and "fst (getVesselPosition c netP (cleanIdentifier identifier)) = Inr (Some p)"
    and "isl (fst (getVesselDetails c netD (cleanIdentifier identifier)))
         \<or> fst (getVesselDetails c netD (cleanIdentifier identifier)) = Inr None"
    and "fst (getVesselResource rt c netP netD uri) = Inr v"
  shows "resource_position rt (Some p) = Inr (v_position v)
       \<and> (vp_ship_type p = Some 0 \<or> vp_ship_type p = None \<longrightarrow> v_vessel_type v = None)"
proof -
  from assms(3,4) have n: "catch_null (fst (getVesselPosition c netP (cleanIdentifier identifier))) = Some p"
    "catch_null (fst (getVesselDetails c netD (cleanIdentifier identifier))) = None"
    by (simp_all add: catch_null_None catch_null_Some)
  from assms(1,2,5) n show ?thesis
    by (auto simp: getVesselResource_def Let_def truthy_num_zero split: if_splits sum.splits)
qed

lemma details_tool_type:
  assumes "fst (getVesselDetails c net (cleanIdentifier identifier)) = Inr d"
    and "fst (getVesselDetailsTool rt c net identifier) = Inr r"
  shows "vt_code (dr_vessel_type r) = vd_ship_type d
       \<and> (vd_ship_type d = 0 \<and> \<not> truthy_str (vd_type_name d) \<longrightarrow>
            vt_name (dr_vessel_type r) = ''Not available'')"
proof -
  have z: "map_of SHIP_TYPE_MAPPING_details 0 = Some ''Not available''"
    by (simp add: SHIP_TYPE_MAPPING_details_def)
  from assms show ?thesis
    by (auto simp: getVesselDetailsTool_def z or_str_def truthy_str_def
          split: if_splits prod.splits sum.splits)
qed


lemma example_speed: "String_of_number example_runtime 12 = ''12''"
  by (simp add: example_runtime_def)

lemma example_timestamp:
  "last_update example_runtime ''2021-03-23T05:40:00.000Z'' = Inr ''2021-03-23T05:40:00.000Z''"
  by (simp add: example_runtime_def last_update_def)

lemma example_uri:
  "match_vessel_uri ''vessel://123456789'' = Some ''123456789''"
  "decodeURIComponent example_runtime ''123456789'' = Some ''123456789''"
  "test_mmsi ''123456789''" "cleanIdentifier ''123456789'' = ''123456789''"
  by (simp_all add: match_vessel_uri_def startsWith_def substring_def example_runtime_def
        test_mmsi_def digits_def digit_def cleanIdentifier_def)

text \<open>
  C10, as the code has it. Where a payload tests an optional number of a position, the
  test is for truthiness, and zero fares as absence does. \<open>formatVesselData\<close> (search
  tool, area tool, area resource) renders a course of zero as \<open>N/A\<close> and a ship type of
  zero as \<open>Unknown\<close>, and returns for either what it returns when the field is absent. The
  position tool and the position entry of the vessel resource render a course or a
  heading of zero as \<open>N/A\<close>. The vessel resource, when the details have failed (or
  have come as a falsy body), leaves \<open>vessel_type\<close> out for a position whose ship type is
  zero, as for one without ship type: nothing is rendered as \<open>Unknown\<close> there. The ship type of the details is not
  tested: the details tool returns its code as it is, and for the code zero without a
  type name the name \<open>Not available\<close> of its table.
\<close>

theorem zero_is_rendered_as_absent:
  "(formatVesselData rt v = Inr f \<longrightarrow>
      (vp_course v = Some 0 \<or> vp_course v = None \<longrightarrow> fv_course f = ''N/A'')
      \<and> (vp_ship_type v = Some 0 \<or> vp_ship_type v = None \<longrightarrow> fv_type f = ''Unknown''))
   \<and> (vp_course v = Some 0 \<longrightarrow>
        formatVesselData rt (v\<lparr> vp_course := None \<rparr>) = formatVesselData rt v)
   \<and> (vp_ship_type v = Some 0 \<longrightarrow>
        formatVesselData rt (v\<lparr> vp_ship_type := None \<rparr>) = formatVesselData rt v)
   \<and> (fst (getVesselPosition c netP (cleanIdentifier identifier)) = Inr v
        \<and> fst (getVesselPositionTool rt c netP identifier) = Inr r \<longrightarrow>
      (vp_course v = Some 0 \<or> vp_course v = None \<longrightarrow> pr_course r = ''N/A'')
      \<and> (vp_heading v = Some 0 \<or> vp_heading v = None \<longrightarrow> pr_heading r = ''N/A''))
   \<and> (resource_position rt (Some v) = Inr (Some rp) \<longrightarrow>
      (vp_course v = Some 0 \<or> vp_course v = None \<longrightarrow> rp_course rp = ''N/A'')
      \<and> (vp_heading v = Some 0 \<or> vp_heading v = None \<longrightarrow> rp_heading rp = ''N/A''))
   \<and> (match_vessel_uri uri = Some encoded \<and> decodeURIComponent rt encoded = Some identifier
        \<and> fst (getVesselPosition c resP (cleanIdentifier identifier)) = Inr (Some v)
        \<and> (isl (fst (getVesselDetails c resD (cleanIdentifier identifier)))
            \<or> fst (getVesselDetails c resD (cleanIdentifier identifier)) = Inr None)
        \<and> fst (getVesselResource rt c resP resD uri) = Inr vd \<longrightarrow>
      resource_position rt (Some v) = Inr (v_position vd)
      \<and> (vp_ship_type v = Some 0 \<or> vp_ship_type v = None \<longrightarrow> v_vessel_type vd = None))
   \<and> (fst (getVesselDetails c netD (cleanIdentifier identifier)) = Inr d
        \<and> fst (getVesselDetailsTool rt c netD identifier) = Inr dr \<longrightarrow>
      vt_code (dr_vessel_type dr) = vd_ship_type d
      \<and> (vd_ship_type d = 0 \<and> \<not> truthy_str (vd_type_name d) \<longrightarrow>
           vt_name (dr_vessel_type dr) = ''Not available''))"
proof (intro conjI)
  show "formatVesselData rt v = Inr f \<longrightarrow>
      (vp_course v = Some 0 \<or> vp_course v = None \<longrightarrow> fv_course f = ''N/A'')
      \<and> (vp_ship_type v = Some 0 \<or> vp_ship_type v = None \<longrightarrow> fv_type f = ''Unknown'')"
    using formatVesselData_course [of rt v f] formatVesselData_type [of rt v f] by blast
  show "vp_course v = Some 0 \<longrightarrow>
        formatVesselData rt (v\<lparr> vp_course := None \<rparr>) = formatVesselData rt v"
    using formatVesselData_course_absent [of v rt] by blast
  show "vp_ship_type v = Some 0 \<longrightarrow>
        formatVesselData rt (v\<lparr> vp_ship_type := None \<rparr>) = formatVesselData rt v"
    using formatVesselData_type_absent [of v rt] by blast
  show "fst (getVesselPosition c netP (cleanIdentifier identifier)) = Inr v
        \<and> fst (getVesselPositionTool rt c netP identifier) = Inr r \<longrightarrow>
      (vp_course v = Some 0 \<or> vp_course v = None \<longrightarrow> pr_course r = ''N/A'')
      \<and> (vp_heading v = Some 0 \<or> vp_heading v = None \<longrightarrow> pr_heading r = ''N/A'')"
    using position_tool_course_heading [of c netP "identifier" v rt r] by blast
  show "resource_position rt (Some v) = Inr (Some rp) \<longrightarrow>
      (vp_course v = Some 0 \<or> vp_course v = None \<longrightarrow> rp_course rp = ''N/A'')
      \<and> (vp_heading v = Some 0 \<or> vp_heading v = None \<longrightarrow> rp_heading rp = ''N/A'')"
    using resource_position_course_heading [of rt v rp] by blast
  show "match_vessel_uri uri = Some encoded \<and> decodeURIComponent rt encoded = Some identifier
        \<and> fst (getVesselPosition c resP (cleanIdentifier identifier)) = Inr (Some v)
        \<and> (isl (fst (getVesselDetails c resD (cleanIdentifier identifier)))
            \<or> fst (getVesselDetails c resD (cleanIdentifier identifier)) = Inr None)
        \<and> fst (getVesselResource rt c resP resD uri) = Inr vd \<longrightarrow>
      resource_position rt (Some v) = Inr (v_position vd)
      \<and> (vp_ship_type v = Some 0 \<or> vp_ship_type v = None \<longrightarrow> v_vessel_type vd = None)"
    using resource_position_only [of uri encoded rt "identifier" c resP v resD vd] by blast
  show "fst (getVesselDetails c netD (cleanIdentifier identifier)) = Inr d
        \<and> fst (getVesselDetailsTool rt c netD identifier) = Inr dr \<longrightarrow>
      vt_code (dr_vessel_type dr) = vd_ship_type d
      \<and> (vd_ship_type d = 0 \<and> \<not> truthy_str (vd_type_name d) \<longrightarrow>
           vt_name (dr_vessel_type dr) = ''Not available'')"
    using details_tool_type [of c netD "identifier" d rt dr] by blast
qed


theorem zero_is_rendered_as_absent_witness:
  "vp_course example_position = Some 0 \<and> vp_heading example_position = Some 0
   \<and> vp_ship_type example_position = Some 0
   \<and> \<not> isl (formatVesselData example_runtime example_position)
   \<and> fv_course (projr (formatVesselData example_runtime example_position)) = ''N/A''
   \<and> fv_type (projr (formatVesselData example_runtime example_position)) = ''Unknown''
   \<and> formatVesselData example_runtime (example_position\<lparr> vp_ship_type := None \<rparr>) =
       formatVesselData example_runtime example_position
   \<and> fst (getVesselPosition example_client (limited_then 0 (Resolve example_position))
             (cleanIdentifier ''123456789'')) = Inr example_position
   \<and> \<not> isl (fst (getVesselPositionTool example_runtime example_client
                     (limited_then 0 (Resolve example_position)) ''123456789''))
   \<and> pr_course (projr (fst (getVesselPositionTool example_runtime example_client
                     (limited_then 0 (Resolve example_position)) ''123456789''))) = ''N/A''
   \<and> pr_heading (projr (fst (getVesselPositionTool example_runtime example_client
                     (limited_then 0 (Resolve example_position)) ''123456789''))) = ''N/A''
   \<and> vd_ship_type example_details = 0 \<and> \<not> truthy_str (vd_type_name example_details)
   \<and> fst (getVesselDetails example_client (limited_then 0 (Resolve example_details))
             (cleanIdentifier ''123456789'')) = Inr example_details
   \<and> \<not> isl (fst (getVesselDetailsTool example_runtime example_client
                     (limited_then 0 (Resolve example_details)) ''123456789''))
   \<and> vt_name (dr_vessel_type (projr (fst (getVesselDetailsTool example_runtime example_client
                     (limited_then 0 (Resolve example_details)) ''123456789'')))) =
       ''Not available''"
proof -
  let ?netP = "limited_then 0 (Resolve example_position)"
  let ?netD = "limited_then 0 (Resolve example_details)"
  have z: "vp_course example_position = Some 0" "vp_heading example_position = Some 0"
    "vp_ship_type example_position = Some 0"
    "vd_ship_type example_details = 0" "\<not> truthy_str (vd_type_name example_details)"
    by (simp_all add: example_position_def example_details_def truthy_str_def)
  have ts: "vp_timestamp example_position = ''2021-03-23T05:40:00.000Z''"
    by (simp add: example_position_def)
  obtain f where f: "formatVesselData example_runtime example_position = Inr f"
    by (simp add: formatVesselData_def ts example_timestamp)
  have p: "fst (getVesselPosition example_client ?netP (cleanIdentifier ''123456789''))
      = Inr example_position"
    by (simp add: getVesselPosition_def makeRequest_answered)
  obtain r where r: "fst (getVesselPositionTool example_runtime example_client ?netP
      ''123456789'') = Inr r"
    by (simp add: getVesselPositionTool_def example_uri getVesselPosition_def
          makeRequest_answered ts example_timestamp)
  have d: "fst (getVesselDetails example_client ?netD (cleanIdentifier ''123456789''))
      = Inr example_details"
    by (simp add: getVesselDetails_def makeRequest_answered)
  obtain dr where dr: "fst (getVesselDetailsTool example_runtime example_client ?netD
      ''123456789'') = Inr dr"
    by (simp add: getVesselDetailsTool_def example_uri getVesselDetails_def makeRequest_answered)
  note t = zero_is_rendered_as_absent
             [of example_runtime example_position f example_client ?netP "''123456789''" r
                 undefined "''vessel://123456789''" "''123456789''" unreachable unreachable
                 undefined ?netD example_details dr]
  from t f z have 1: "fv_course f = ''N/A''" "fv_type f = ''Unknown''"
    "formatVesselData example_runtime (example_position\<lparr> vp_ship_type := None \<rparr>) =
       formatVesselData example_runtime example_position"
    by blast+
  from t p r z have 2: "pr_course r = ''N/A''" "pr_heading r = ''N/A''"
    by blast+
  from t d dr z have 3: "vt_name (dr_vessel_type dr) = ''Not available''"
    by blast
  from z f 1 p r 2 d dr 3 show ?thesis
    by simp
qed

text \<open>
  C10, as stated, fails: for a position whose ship type is zero, the details having
  failed, the vessel resource returns an object without \<open>vessel_type\<close>, in which no
  field is \<open>Unknown\<close>.
\<close>

theorem zero_ship_type_omitted_by_vessel_resource:
  "vp_ship_type example_position = Some 0
   \<and> fst (getVesselResource example_runtime example_client
            (limited_then 0 (Resolve (Some example_position))) unreachable
            ''vessel://123456789'') =
       Inr \<lparr> v_mmsi = ''123456789'', v_imo = ''9811000'', v_name = ''EVER GIVEN'',
             v_vessel_type = None,
             v_position = Some
               \<lparr> rp_latitude = 30, rp_longitude = 32, rp_speed = ''12 knots'',
                 rp_course = ''N/A'', rp_heading = ''N/A'', rp_status = ''Under way'',
                 rp_last_update = ''2021-03-23T05:40:00.000Z'' \<rparr>,
             v_details = None,
             v_voyage = Some
               \<lparr> voy_destination = ''ROTTERDAM'', voy_eta = ''2021-03-31T00:00:00.000Z'' \<rparr> \<rparr>"
  by (simp add: getVesselResource_def example_uri getVesselPosition_def getVesselDetails_def
        makeRequest_unreachable makeRequest_answered catch_null_def resource_position_def
        example_position_def example_timestamp example_speed with_unit_def truthy_num_def
        or_str_def truthy_str_def)



end
